theory Spec2Isabelle
  imports Main "HOL-Library.Word"
begin

unbundle bit_operations_syntax

section \<open>FemtoRV32 Quark: data model\<close>

text \<open>
  The model follows the SystemC module \<^verbatim>\<open>FemtoRV32_Quark\<close> of
  \<^verbatim>\<open>femtorv32_quark.h\<close> and \<^verbatim>\<open>femtorv32_quark.cpp\<close>.
  An \<^verbatim>\<open>sc_uint\<close> of width w is a w-bit word: arithmetic on it is done in 64 bits
  and cut to w bits by the assignment. Every member variable of the module is a field of
  the record \<open>core\<close>, since all of them persist between two activations of a process;
  the four output ports are fields too. The input ports are the record \<open>inputs\<close>.
\<close>

text \<open>
  The enumeration \<^verbatim>\<open>State\<close>. Its last enumerator \<^verbatim>\<open>NB_STATES\<close> counts the states and
  is never assigned to \<^verbatim>\<open>state\<close>.
\<close>

datatype State = FETCH_INSTR | WAIT_INSTR | EXECUTE | WAIT_ALU_OR_MEM

text \<open>The two compile-time switches of the source file.\<close>

record config =
  NRV_TWOLEVEL_SHIFTER :: bool
  NRV_IS_IO_ADDR :: bool

text \<open>
  The input ports. \<open>reset\<close> is the value read from the port \<^verbatim>\<open>reset\<close>;
  \<^verbatim>\<open>clock_process\<close> takes its reset branch when this value is false.
\<close>

record inputs =
  reset :: bool
  mem_rdata :: "32 word"
  mem_rbusy :: bool
  mem_wbusy :: bool

text \<open>
  The register file is a \<^verbatim>\<open>std::vector\<close> of 32 words that is only ever indexed by
  5-bit values, so every index is in range: it is a total function on \<open>5 word\<close>.
\<close>

record core =
  PC :: "32 word"
  instr :: "30 word"
  full_instr :: "32 word"
  state :: State
  cycles :: "32 word"
  registerFile :: "5 word \<Rightarrow> 32 word"
  aluReg :: "32 word"
  aluShamt :: "5 word"
  rdId :: "5 word"
  rs1Id :: "5 word"
  rs2Id :: "5 word"
  funct3 :: "3 word"
  opcode :: "7 word"
  rs1 :: "32 word"
  rs2 :: "32 word"
  Uimm :: "32 word"
  Iimm :: "32 word"
  Simm :: "32 word"
  Bimm :: "32 word"
  Jimm :: "32 word"
  isLoad :: bool
  isALUimm :: bool
  isStore :: bool
  isALUreg :: bool
  isSYSTEM :: bool
  isJAL :: bool
  isJALR :: bool
  isLUI :: bool
  isAUIPC :: bool
  isBranch :: bool
  isALU :: bool
  aluIn1 :: "32 word"
  aluIn2 :: "32 word"
  aluOut :: "32 word"
  aluPlus :: "32 word"
  aluMinus :: "33 word"
  LT :: bool
  LTU :: bool
  EQ :: bool
  aluBusy :: bool
  aluWr :: bool
  funct3IsShift :: bool
  predicate :: bool
  mem_byteAccess :: bool
  mem_halfwordAccess :: bool
  loadstore_addr :: "32 word"
  LOAD_data :: "32 word"
  LOAD_halfword :: "16 word"
  LOAD_byte :: "8 word"
  LOAD_sign :: bool
  STORE_wmask :: "4 word"
  writeBack :: bool
  jumpToPCplusImm :: bool
  needToWait :: bool
  PCplus4 :: "32 word"
  PCplusImm :: "32 word"
  writeBackData :: "32 word"
  mem_addr :: "32 word"
  mem_wdata :: "32 word"
  mem_wmask :: "4 word"
  mem_rstrb :: bool

text \<open>The constructor fixes both parameters to their defaults.\<close>

definition RESET_ADDR :: "32 word" where
  "RESET_ADDR = 0x00000000"

definition ADDR_WIDTH :: nat where
  "ADDR_WIDTH = 24"

text \<open>The function codes of the enumerations \<^verbatim>\<open>ALUFunction\<close> and \<^verbatim>\<open>BranchFunction\<close>.\<close>

definition ALU_ADD_SUB :: "3 word" where "ALU_ADD_SUB = 0"
definition ALU_SLL :: "3 word" where "ALU_SLL = 1"
definition ALU_SLT :: "3 word" where "ALU_SLT = 2"
definition ALU_SLTU :: "3 word" where "ALU_SLTU = 3"
definition ALU_XOR :: "3 word" where "ALU_XOR = 4"
definition ALU_SRL_SRA :: "3 word" where "ALU_SRL_SRA = 5"
definition ALU_OR :: "3 word" where "ALU_OR = 6"
definition ALU_AND :: "3 word" where "ALU_AND = 7"

definition BRANCH_BEQ :: "3 word" where "BRANCH_BEQ = 0"
definition BRANCH_BNE :: "3 word" where "BRANCH_BNE = 1"
definition BRANCH_BLT :: "3 word" where "BRANCH_BLT = 4"
definition BRANCH_BGE :: "3 word" where "BRANCH_BGE = 5"
definition BRANCH_BLTU :: "3 word" where "BRANCH_BLTU = 6"
definition BRANCH_BGEU :: "3 word" where "BRANCH_BGEU = 7"

text \<open>
  \<^verbatim>\<open>x.range(hi, lo)\<close>: the bits hi down to lo of x, as a value of \<open>hi - lo + 1\<close> bits,
  zero-extended to the width of the place that receives it.
\<close>

definition bits_range :: "nat \<Rightarrow> nat \<Rightarrow> 'a::len word \<Rightarrow> 'b::len word" where
  "bits_range hi lo x = ucast (take_bit (Suc hi - lo) (drop_bit lo x))"

text \<open>
  The state after the constructor has run. The constructor initialises \<^verbatim>\<open>PC\<close>,
  \<^verbatim>\<open>state\<close>, \<^verbatim>\<open>cycles\<close>, \<^verbatim>\<open>registerFile\<close>, \<^verbatim>\<open>aluReg\<close> and \<^verbatim>\<open>aluShamt\<close>;
  an \<^verbatim>\<open>sc_uint\<close> member starts at zero; the \<^verbatim>\<open>bool\<close> members are left
  uninitialised by the source and are taken as false here.
\<close>

definition init_core :: core where
  "init_core =
    \<lparr> PC = 0, instr = 0, full_instr = 0, state = WAIT_ALU_OR_MEM, cycles = 0,
      registerFile = (\<lambda>_. 0), aluReg = 0, aluShamt = 0,
      rdId = 0, rs1Id = 0, rs2Id = 0, funct3 = 0, opcode = 0, rs1 = 0, rs2 = 0,
      Uimm = 0, Iimm = 0, Simm = 0, Bimm = 0, Jimm = 0,
      isLoad = False, isALUimm = False, isStore = False, isALUreg = False,
      isSYSTEM = False, isJAL = False, isJALR = False, isLUI = False,
      isAUIPC = False, isBranch = False, isALU = False,
      aluIn1 = 0, aluIn2 = 0, aluOut = 0, aluPlus = 0, aluMinus = 0,
      LT = False, LTU = False, EQ = False, aluBusy = False, aluWr = False,
      funct3IsShift = False, predicate = False,
      mem_byteAccess = False, mem_halfwordAccess = False,
      loadstore_addr = 0, LOAD_data = 0, LOAD_halfword = 0, LOAD_byte = 0,
      LOAD_sign = False, STORE_wmask = 0,
      writeBack = False, jumpToPCplusImm = False, needToWait = False,
      PCplus4 = 0, PCplusImm = 0, writeBackData = 0,
      mem_addr = 0, mem_wdata = 0, mem_wmask = 0, mem_rstrb = False \<rparr>"

section \<open>The decoder\<close>

text \<open>
  In the definitions below every assignment of the source is a \<open>let\<close> binding, in the
  order of the source, and the fields are stored at the end; a member read after its
  assignment is read through its binding.

  \<^verbatim>\<open>decode_instruction\<close>: the instruction word is captured only in \<^verbatim>\<open>WAIT_INSTR\<close>
  with \<^verbatim>\<open>mem_rbusy\<close> low. The test on words below \<^verbatim>\<open>0x10000\<close> in the source only
  prints a diagnostic and has no effect on the state.
\<close>

definition decode_instruction :: "inputs \<Rightarrow> core \<Rightarrow> core" where
  "decode_instruction inp s =
    (if state s = WAIT_INSTR \<and> \<not> mem_rbusy inp then
       (let instruction = mem_rdata inp;
            rdId' = bits_range 11 7 instruction;
            rs1Id' = bits_range 19 15 instruction;
            rs2Id' = bits_range 24 20 instruction;
            funct3' = bits_range 14 12 instruction;
            opcode' = bits_range 6 0 instruction;
            instr' = bits_range 31 2 instruction;
            full_instr' = instruction;
            rs1' = registerFile s rs1Id';
            rs2' = registerFile s rs2Id';
            isLoad' = ((bits_range 6 2 instruction :: 5 word) = 0x00);
            isALUimm' = ((bits_range 6 2 instruction :: 5 word) = 0x04);
            isStore' = ((bits_range 6 2 instruction :: 5 word) = 0x08);
            isALUreg' = ((bits_range 6 2 instruction :: 5 word) = 0x0C);
            isSYSTEM' = ((bits_range 6 2 instruction :: 5 word) = 0x1C);
            isJAL' = bit instruction 3;
            isJALR' = ((bits_range 6 2 instruction :: 5 word) = 0x19);
            isLUI' = ((bits_range 6 2 instruction :: 5 word) = 0x0D);
            isAUIPC' = ((bits_range 6 2 instruction :: 5 word) = 0x05);
            isBranch' = ((bits_range 6 2 instruction :: 5 word) = 0x18);
            isALU' = (isALUimm' \<or> isALUreg')
        in s\<lparr> rdId := rdId', rs1Id := rs1Id', rs2Id := rs2Id', funct3 := funct3',
               opcode := opcode', instr := instr', full_instr := full_instr',
               rs1 := rs1', rs2 := rs2',
               isLoad := isLoad', isALUimm := isALUimm', isStore := isStore',
               isALUreg := isALUreg', isSYSTEM := isSYSTEM', isJAL := isJAL',
               isJALR := isJALR', isLUI := isLUI', isAUIPC := isAUIPC',
               isBranch := isBranch', isALU := isALU' \<rparr>)
     else s)"

text \<open>
  \<^verbatim>\<open>compute_immediates\<close>. A concatenation \<^verbatim>\<open>(a, b)\<close> of SystemC values is
  \<open>word_cat a b\<close>. \<^verbatim>\<open>sc_uint<21>(instr[29])\<close> converts one bit to a 21-bit value, which
  is 0 or 1.
\<close>

definition compute_immediates :: "core \<Rightarrow> core" where
  "compute_immediates s =
    (let instr_val = full_instr s;
         opcode' = instr_val AND 0x7F;
         Uimm' = (if (opcode' = 0x17 \<or> opcode' = 0x37) \<and> instr_val < 0x10000 then
                    (if opcode' = 0x17 then 0x00000000
                     else (let truncated_imm = drop_bit 12 instr_val AND 0xF
                           in push_bit 12 truncated_imm))
                  else word_cat
                         (word_cat (of_bool (bit (full_instr s) 31) :: 1 word)
                                   (bits_range 30 12 (full_instr s) :: 19 word) :: 20 word)
                         (0 :: 12 word));
         Iimm' = (if bit (full_instr s) 31 then 0xFFFFF000 else 0x00000000)
                 OR bits_range 31 20 (full_instr s);
         Simm' = word_cat
                   (word_cat (of_bool (bit (instr s) 29) :: 21 word)
                             (bits_range 28 23 (instr s) :: 6 word) :: 27 word)
                   (bits_range 9 5 (instr s) :: 5 word);
         Bimm' = word_cat
                   (word_cat
                     (word_cat
                       (word_cat (of_bool (bit (instr s) 29) :: 20 word)
                                 (of_bool (bit (instr s) 5) :: 1 word) :: 21 word)
                       (bits_range 28 23 (instr s) :: 6 word) :: 27 word)
                     (bits_range 9 6 (instr s) :: 4 word) :: 31 word)
                   (0 :: 1 word);
         Jimm' = word_cat
                   (word_cat
                     (word_cat
                       (word_cat (of_bool (bit (instr s) 29) :: 12 word)
                                 (bits_range 17 10 (instr s) :: 8 word) :: 20 word)
                       (of_bool (bit (instr s) 18) :: 1 word) :: 21 word)
                     (bits_range 28 19 (instr s) :: 10 word) :: 31 word)
                   (0 :: 1 word)
     in s\<lparr> Uimm := Uimm', Iimm := Iimm', Simm := Simm', Bimm := Bimm', Jimm := Jimm' \<rparr>)"

section \<open>The ALU, the branch predicate and the load/store aligner\<close>

text \<open>
  \<^verbatim>\<open>compute_alu\<close>. The subtraction is done by the source in 64-bit arithmetic and cut
  to the 33 bits of \<^verbatim>\<open>aluMinus\<close>. \<^verbatim>\<open>aluOut\<close> is first set to zero; the chain of
  tests on \<^verbatim>\<open>funct3\<close> then overwrites it.
\<close>

definition compute_alu :: "core \<Rightarrow> core" where
  "compute_alu s =
    (let aluIn1' = rs1 s;
         aluIn2' = (if isALUreg s \<or> isBranch s then rs2 s else Iimm s);
         aluPlus' = aluIn1' + aluIn2';
         aluMinus' = (ucast (((push_bit 32 (1 :: 64 word)) OR NOT (ucast aluIn2'))
                             + ((push_bit 32 (0 :: 64 word)) OR ucast aluIn1') + 1) :: 33 word);
         LT' = (if bit aluIn1' 31 \<noteq> bit aluIn2' 31 then bit aluIn1' 31 else bit aluMinus' 32);
         LTU' = bit aluMinus' 32;
         EQ' = ((bits_range 31 0 aluMinus' :: 32 word) = 0);
         aluOut' = (if funct3 s = ALU_ADD_SUB then
                      (if bit (instr s) 28 \<and> bit (instr s) 3
                       then bits_range 31 0 aluMinus' else aluPlus')
                    else if funct3 s = ALU_SLT then (if LT' then 1 else 0)
                    else if funct3 s = ALU_SLTU then (if LTU' then 1 else 0)
                    else if funct3 s = ALU_XOR then aluIn1' XOR aluIn2'
                    else if funct3 s = ALU_OR then aluIn1' OR aluIn2'
                    else if funct3 s = ALU_AND then aluIn1' AND aluIn2'
                    else if funct3 s = ALU_SLL \<or> funct3 s = ALU_SRL_SRA then aluReg s
                    else 0);
         funct3IsShift' = (funct3 s = ALU_SLL \<or> funct3 s = ALU_SRL_SRA);
         aluBusy' = (aluShamt s \<noteq> 0)
     in s\<lparr> aluIn1 := aluIn1', aluIn2 := aluIn2', aluPlus := aluPlus', aluMinus := aluMinus',
            LT := LT', LTU := LTU', EQ := EQ', aluOut := aluOut',
            funct3IsShift := funct3IsShift', aluBusy := aluBusy' \<rparr>)"

definition compute_branch_predicate :: "core \<Rightarrow> core" where
  "compute_branch_predicate s =
    s\<lparr> predicate := ((funct3 s = BRANCH_BEQ \<and> EQ s) \<or>
                      (funct3 s = BRANCH_BNE \<and> \<not> EQ s) \<or>
                      (funct3 s = BRANCH_BLT \<and> LT s) \<or>
                      (funct3 s = BRANCH_BGE \<and> \<not> LT s) \<or>
                      (funct3 s = BRANCH_BLTU \<and> LTU s) \<or>
                      (funct3 s = BRANCH_BGEU \<and> \<not> LTU s)) \<rparr>"

text \<open>
  \<^verbatim>\<open>compute_memory_access\<close>. \<^verbatim>\<open>instr\<close> holds the bits 31 down to 2 of the
  instruction word, and \<^verbatim>\<open>instr.range(13, 12)\<close> is written here as the source has it, on
  that 30-bit value. \<^verbatim>\<open>sc_uint<24>(LOAD_sign)\<close> is the 24-bit value 0 or 1.
\<close>

definition compute_memory_access :: "inputs \<Rightarrow> core \<Rightarrow> core" where
  "compute_memory_access inp s =
    (let mem_byteAccess' = ((bits_range 13 12 (instr s) :: 2 word) = 0);
         mem_halfwordAccess' = ((bits_range 13 12 (instr s) :: 2 word) = 1);
         loadstore_addr' = (bits_range (ADDR_WIDTH - 1) 0 (rs1 s) +
                            (if isStore s then bits_range (ADDR_WIDTH - 1) 0 (Simm s)
                             else bits_range (ADDR_WIDTH - 1) 0 (Iimm s)) :: 32 word);
         LOAD_halfword' = (if bit loadstore_addr' 1 then bits_range 31 16 (mem_rdata inp)
                           else bits_range 15 0 (mem_rdata inp) :: 16 word);
         LOAD_byte' = (if bit loadstore_addr' 0 then bits_range 15 8 LOAD_halfword'
                       else bits_range 7 0 LOAD_halfword' :: 8 word);
         LOAD_sign' = (\<not> bit (instr s) 12 \<and>
                       (if mem_byteAccess' then bit LOAD_byte' 7 else bit LOAD_halfword' 15));
         LOAD_data' = (if mem_byteAccess'
                       then word_cat (of_bool LOAD_sign' :: 24 word) LOAD_byte'
                       else if mem_halfwordAccess'
                       then word_cat (of_bool LOAD_sign' :: 16 word) LOAD_halfword'
                       else mem_rdata inp);
         STORE_wmask' = (if mem_byteAccess' then
                           (if bit loadstore_addr' 1
                            then (if bit loadstore_addr' 0 then 0x8 else 0x4)
                            else (if bit loadstore_addr' 0 then 0x2 else 0x1))
                         else if mem_halfwordAccess'
                         then (if bit loadstore_addr' 1 then 0xC else 0x3)
                         else 0xF)
     in s\<lparr> mem_byteAccess := mem_byteAccess', mem_halfwordAccess := mem_halfwordAccess',
            loadstore_addr := loadstore_addr', LOAD_halfword := LOAD_halfword',
            LOAD_byte := LOAD_byte', LOAD_sign := LOAD_sign', LOAD_data := LOAD_data',
            STORE_wmask := STORE_wmask' \<rparr>)"

section \<open>The program counter and the control state machine\<close>

text \<open>
  \<^verbatim>\<open>update_pc\<close> is called from the combinational process. It reads
  \<^verbatim>\<open>jumpToPCplusImm\<close> as the previous evaluation left it, since the combinational process
  assigns that member only after the call. \<^verbatim>\<open>PC\<close> is written only in \<^verbatim>\<open>EXECUTE\<close>.
\<close>

definition update_pc :: "core \<Rightarrow> core" where
  "update_pc s =
    (let PCplus4' = PC s + 4;
         PCplusImm' = (if isJAL s then PC s + bits_range (ADDR_WIDTH - 1) 0 (Jimm s)
                       else if isAUIPC s then PC s + bits_range (ADDR_WIDTH - 1) 0 (Uimm s)
                       else PC s + bits_range (ADDR_WIDTH - 1) 0 (Bimm s));
         PC' = (if state s = EXECUTE then
                  (if isJALR s
                   then word_cat (bits_range (ADDR_WIDTH - 1) 1 (aluPlus s) :: 23 word)
                                 (0 :: 1 word)
                   else if jumpToPCplusImm s then PCplusImm'
                   else PCplus4')
                else PC s)
     in s\<lparr> PCplus4 := PCplus4', PCplusImm := PCplusImm', PC := PC' \<rparr>)"

definition update_state :: "inputs \<Rightarrow> core \<Rightarrow> core" where
  "update_state inp s =
    (case state s of
       WAIT_INSTR \<Rightarrow> (if \<not> mem_rbusy inp then s\<lparr> state := EXECUTE \<rparr> else s)
     | EXECUTE \<Rightarrow> s\<lparr> state := (if needToWait s then WAIT_ALU_OR_MEM else FETCH_INSTR) \<rparr>
     | WAIT_ALU_OR_MEM \<Rightarrow>
         (if \<not> aluBusy s \<and> \<not> mem_rbusy inp \<and> \<not> mem_wbusy inp
          then s\<lparr> state := FETCH_INSTR \<rparr> else s)
     | FETCH_INSTR \<Rightarrow> s\<lparr> state := WAIT_INSTR \<rparr>)"

definition is_io_addr :: "32 word \<Rightarrow> bool" where
  "is_io_addr addr = False"

section \<open>The two processes\<close>

text \<open>
  \<^verbatim>\<open>combinational_process\<close> calls the six functions above in turn and then assigns the
  control signals and the output ports. Under \<^verbatim>\<open>NRV_IS_IO_ADDR\<close> the source reads the
  port \<^verbatim>\<open>mem_addr\<close> before it writes it.
\<close>

definition combinational_process :: "config \<Rightarrow> inputs \<Rightarrow> core \<Rightarrow> core" where
  "combinational_process cfg inp s =
    (let s1 = decode_instruction inp s;
         s2 = compute_immediates s1;
         s3 = compute_alu s2;
         s4 = compute_branch_predicate s3;
         s5 = compute_memory_access inp s4;
         s6 = update_pc s5;
         writeBack' = (\<not> (isBranch s6 \<or> isStore s6) \<and>
                       (state s6 = EXECUTE \<or> state s6 = WAIT_ALU_OR_MEM));
         mem_rstrb' = (state s6 = FETCH_INSTR \<or> (state s6 = EXECUTE \<and> isLoad s6));
         mem_wmask' = (if state s6 = EXECUTE \<and> isStore s6 then STORE_wmask s6 else 0);
         aluWr' = (state s6 = EXECUTE \<and> isALU s6);
         jumpToPCplusImm' = (isJAL s6 \<or> (isBranch s6 \<and> predicate s6));
         needToWait' = (if NRV_IS_IO_ADDR cfg
                        then isLoad s6 \<or> (isStore s6 \<and> is_io_addr (mem_addr s6)) \<or>
                             (isALU s6 \<and> funct3IsShift s6)
                        else isLoad s6 \<or> isStore s6 \<or> (isALU s6 \<and> funct3IsShift s6));
         mem_addr' = (if state s6 = WAIT_INSTR \<or> state s6 = FETCH_INSTR \<or>
                         (state s6 = EXECUTE \<and> \<not> isLoad s6 \<and> \<not> isStore s6)
                      then PC s6 else loadstore_addr s6);
         mem_wdata' = rs2 s6;
         writeBackData' = (if isSYSTEM s6 then cycles s6 else 0) OR
                          (if isLUI s6 then Uimm s6 else 0) OR
                          (if isALU s6 then aluOut s6 else 0) OR
                          (if isAUIPC s6 then PCplusImm s6 else 0) OR
                          (if isJALR s6 \<or> isJAL s6 then PCplus4 s6 else 0) OR
                          (if isLoad s6 then LOAD_data s6 else 0)
     in s6\<lparr> writeBack := writeBack', mem_rstrb := mem_rstrb', mem_wmask := mem_wmask',
             aluWr := aluWr', jumpToPCplusImm := jumpToPCplusImm',
             needToWait := needToWait', mem_addr := mem_addr', mem_wdata := mem_wdata',
             writeBackData := writeBackData' \<rparr>)"

text \<open>
  \<^verbatim>\<open>clock_process\<close>. In the four-bit step of the two-level shifter the source writes
  \<^verbatim>\<open>(sign_bit, sign_bit, sign_bit, sign_bit, aluReg.range(31, 4))\<close>: a comma between two
  \<^verbatim>\<open>bool\<close> values is the built-in comma operator of C++, so only the last
  \<^verbatim>\<open>sign_bit\<close> is concatenated with the 28 bits of the range.
\<close>

definition clock_process :: "config \<Rightarrow> inputs \<Rightarrow> core \<Rightarrow> core" where
  "clock_process cfg inp s =
    (if \<not> reset inp then
       s\<lparr> state := WAIT_ALU_OR_MEM, PC := RESET_ADDR, cycles := 0, aluShamt := 0,
          registerFile := (registerFile s)(0 := 0) \<rparr>
     else
       (let cycles' = cycles s + 1;
            sign_bit = (funct3 s = ALU_SRL_SRA \<and> bit (instr s) 28 \<and> bit (aluReg s) 31);
            aluReg' =
              (if aluWr s \<and> funct3IsShift s then aluIn1 s
               else if aluShamt s \<noteq> 0 then
                 (if NRV_TWOLEVEL_SHIFTER cfg \<and> (bits_range 4 2 (aluShamt s) :: 3 word) \<noteq> 0
                  then (if funct3 s = ALU_SLL then push_bit 4 (aluReg s)
                        else word_cat (of_bool sign_bit :: 1 word)
                                      (bits_range 31 4 (aluReg s) :: 28 word))
                  else (if funct3 s = ALU_SLL then push_bit 1 (aluReg s)
                        else word_cat (of_bool sign_bit :: 1 word)
                                      (bits_range 31 1 (aluReg s) :: 31 word)))
               else aluReg s);
            aluShamt' =
              (if aluWr s \<and> funct3IsShift s then bits_range 4 0 (aluIn2 s)
               else if aluShamt s \<noteq> 0 then
                 (if NRV_TWOLEVEL_SHIFTER cfg \<and> (bits_range 4 2 (aluShamt s) :: 3 word) \<noteq> 0
                  then aluShamt s - 4
                  else aluShamt s - 1)
               else aluShamt s);
            registerFile' =
              (if writeBack s \<and> rdId s \<noteq> 0
               then (registerFile s)(rdId s := writeBackData s)
               else registerFile s)
        in update_state inp
             (s\<lparr> cycles := cycles', aluReg := aluReg', aluShamt := aluShamt',
                 registerFile := registerFile' \<rparr>)))"

text \<open>
  Both processes are sensitive to the clock. One clock event is modelled as one evaluation
  of the combinational process on the state before the edge, followed by the clocked
  process, so that the clocked process reads the control signals of that evaluation.
\<close>

definition cycle :: "config \<Rightarrow> inputs \<Rightarrow> core \<Rightarrow> core" where
  "cycle cfg inp s = clock_process cfg inp (combinational_process cfg inp s)"

fun run :: "config \<Rightarrow> inputs list \<Rightarrow> core \<Rightarrow> core" where
  "run cfg [] s = s"
| "run cfg (inp # inps) s = run cfg inps (cycle cfg inp s)"

section \<open>The control relation as the specification words it\<close>

text \<open>
  The four-state relation of the specification, written from its table: the next state
  as a function of the current state, \<open>aluBusy\<close>, \<open>mem_rbusy\<close>, \<open>mem_wbusy\<close> and
  \<open>needToWait\<close>. It is compared below with \<open>update_state\<close>.
\<close>

definition fsm_next :: "State \<Rightarrow> bool \<Rightarrow> bool \<Rightarrow> bool \<Rightarrow> bool \<Rightarrow> State" where
  "fsm_next st alu_busy rbusy wbusy need_to_wait =
    (case st of
       WAIT_ALU_OR_MEM \<Rightarrow>
         (if \<not> alu_busy \<and> \<not> rbusy \<and> \<not> wbusy then FETCH_INSTR else WAIT_ALU_OR_MEM)
     | FETCH_INSTR \<Rightarrow> WAIT_INSTR
     | WAIT_INSTR \<Rightarrow> (if \<not> rbusy then EXECUTE else WAIT_INSTR)
     | EXECUTE \<Rightarrow> (if need_to_wait then WAIT_ALU_OR_MEM else FETCH_INSTR))"

section \<open>Concrete configurations, inputs and states\<close>

text \<open>
  The build with neither switch defined; a bus input outside reset that presents the word
  \<open>w\<close> with both busy flags low; and the core waiting for the instruction word at
  address 0.
\<close>

definition cfg_default :: config where
  "cfg_default = \<lparr> NRV_TWOLEVEL_SHIFTER = False, NRV_IS_IO_ADDR = False \<rparr>"

definition bus :: "32 word \<Rightarrow> inputs" where
  "bus w = \<lparr> reset = True, mem_rdata = w, mem_rbusy = False, mem_wbusy = False \<rparr>"

definition wait_instr_core :: core where
  "wait_instr_core = init_core\<lparr> state := WAIT_INSTR \<rparr>"

section \<open>What each function leaves unchanged\<close>

lemma decode_instruction_keeps [simp]:
  "state (decode_instruction inp s) = state s"
  "cycles (decode_instruction inp s) = cycles s"
  "registerFile (decode_instruction inp s) = registerFile s"
  "aluReg (decode_instruction inp s) = aluReg s"
  "aluShamt (decode_instruction inp s) = aluShamt s"
  "jumpToPCplusImm (decode_instruction inp s) = jumpToPCplusImm s"
  "mem_addr (decode_instruction inp s) = mem_addr s"
  "PC (decode_instruction inp s) = PC s"
  by (simp_all add: decode_instruction_def Let_def)

lemma compute_immediates_keeps [simp]:
  "state (compute_immediates s) = state s"
  "cycles (compute_immediates s) = cycles s"
  "registerFile (compute_immediates s) = registerFile s"
  "aluReg (compute_immediates s) = aluReg s"
  "aluShamt (compute_immediates s) = aluShamt s"
  "jumpToPCplusImm (compute_immediates s) = jumpToPCplusImm s"
  "mem_addr (compute_immediates s) = mem_addr s"
  "PC (compute_immediates s) = PC s"
  "instr (compute_immediates s) = instr s"
  "full_instr (compute_immediates s) = full_instr s"
  "rdId (compute_immediates s) = rdId s"
  "funct3 (compute_immediates s) = funct3 s"
  "isLoad (compute_immediates s) = isLoad s"
  "isALUimm (compute_immediates s) = isALUimm s"
  "isStore (compute_immediates s) = isStore s"
  "isALUreg (compute_immediates s) = isALUreg s"
  "isSYSTEM (compute_immediates s) = isSYSTEM s"
  "isJAL (compute_immediates s) = isJAL s"
  "isJALR (compute_immediates s) = isJALR s"
  "isLUI (compute_immediates s) = isLUI s"
  "isAUIPC (compute_immediates s) = isAUIPC s"
  "isBranch (compute_immediates s) = isBranch s"
  "isALU (compute_immediates s) = isALU s"
  "rs1 (compute_immediates s) = rs1 s"
  "rs2 (compute_immediates s) = rs2 s"
  by (simp_all add: compute_immediates_def Let_def)

lemma compute_alu_keeps [simp]:
  "state (compute_alu s) = state s"
  "cycles (compute_alu s) = cycles s"
  "registerFile (compute_alu s) = registerFile s"
  "aluReg (compute_alu s) = aluReg s"
  "aluShamt (compute_alu s) = aluShamt s"
  "jumpToPCplusImm (compute_alu s) = jumpToPCplusImm s"
  "mem_addr (compute_alu s) = mem_addr s"
  "PC (compute_alu s) = PC s"
  "instr (compute_alu s) = instr s"
  "full_instr (compute_alu s) = full_instr s"
  "rdId (compute_alu s) = rdId s"
  "funct3 (compute_alu s) = funct3 s"
  "isLoad (compute_alu s) = isLoad s"
  "isALUimm (compute_alu s) = isALUimm s"
  "isStore (compute_alu s) = isStore s"
  "isALUreg (compute_alu s) = isALUreg s"
  "isSYSTEM (compute_alu s) = isSYSTEM s"
  "isJAL (compute_alu s) = isJAL s"
  "isJALR (compute_alu s) = isJALR s"
  "isLUI (compute_alu s) = isLUI s"
  "isAUIPC (compute_alu s) = isAUIPC s"
  "isBranch (compute_alu s) = isBranch s"
  "isALU (compute_alu s) = isALU s"
  "rs1 (compute_alu s) = rs1 s"
  "rs2 (compute_alu s) = rs2 s"
  "Uimm (compute_alu s) = Uimm s"
  by (simp_all add: compute_alu_def Let_def)

lemma compute_branch_predicate_keeps [simp]:
  "state (compute_branch_predicate s) = state s"
  "cycles (compute_branch_predicate s) = cycles s"
  "registerFile (compute_branch_predicate s) = registerFile s"
  "aluReg (compute_branch_predicate s) = aluReg s"
  "aluShamt (compute_branch_predicate s) = aluShamt s"
  "jumpToPCplusImm (compute_branch_predicate s) = jumpToPCplusImm s"
  "mem_addr (compute_branch_predicate s) = mem_addr s"
  "PC (compute_branch_predicate s) = PC s"
  "instr (compute_branch_predicate s) = instr s"
  "full_instr (compute_branch_predicate s) = full_instr s"
  "rdId (compute_branch_predicate s) = rdId s"
  "funct3 (compute_branch_predicate s) = funct3 s"
  "isLoad (compute_branch_predicate s) = isLoad s"
  "isALUimm (compute_branch_predicate s) = isALUimm s"
  "isStore (compute_branch_predicate s) = isStore s"
  "isALUreg (compute_branch_predicate s) = isALUreg s"
  "isSYSTEM (compute_branch_predicate s) = isSYSTEM s"
  "isJAL (compute_branch_predicate s) = isJAL s"
  "isJALR (compute_branch_predicate s) = isJALR s"
  "isLUI (compute_branch_predicate s) = isLUI s"
  "isAUIPC (compute_branch_predicate s) = isAUIPC s"
  "isBranch (compute_branch_predicate s) = isBranch s"
  "isALU (compute_branch_predicate s) = isALU s"
  "rs1 (compute_branch_predicate s) = rs1 s"
  "rs2 (compute_branch_predicate s) = rs2 s"
  "aluBusy (compute_branch_predicate s) = aluBusy s"
  "funct3IsShift (compute_branch_predicate s) = funct3IsShift s"
  "aluOut (compute_branch_predicate s) = aluOut s"
  "Uimm (compute_branch_predicate s) = Uimm s"
  by (simp_all add: compute_branch_predicate_def Let_def)

lemma compute_memory_access_keeps [simp]:
  "state (compute_memory_access inp s) = state s"
  "cycles (compute_memory_access inp s) = cycles s"
  "registerFile (compute_memory_access inp s) = registerFile s"
  "aluReg (compute_memory_access inp s) = aluReg s"
  "aluShamt (compute_memory_access inp s) = aluShamt s"
  "jumpToPCplusImm (compute_memory_access inp s) = jumpToPCplusImm s"
  "mem_addr (compute_memory_access inp s) = mem_addr s"
  "PC (compute_memory_access inp s) = PC s"
  "instr (compute_memory_access inp s) = instr s"
  "full_instr (compute_memory_access inp s) = full_instr s"
  "rdId (compute_memory_access inp s) = rdId s"
  "funct3 (compute_memory_access inp s) = funct3 s"
  "isLoad (compute_memory_access inp s) = isLoad s"
  "isALUimm (compute_memory_access inp s) = isALUimm s"
  "isStore (compute_memory_access inp s) = isStore s"
  "isALUreg (compute_memory_access inp s) = isALUreg s"
  "isSYSTEM (compute_memory_access inp s) = isSYSTEM s"
  "isJAL (compute_memory_access inp s) = isJAL s"
  "isJALR (compute_memory_access inp s) = isJALR s"
  "isLUI (compute_memory_access inp s) = isLUI s"
  "isAUIPC (compute_memory_access inp s) = isAUIPC s"
  "isBranch (compute_memory_access inp s) = isBranch s"
  "isALU (compute_memory_access inp s) = isALU s"
  "rs1 (compute_memory_access inp s) = rs1 s"
  "rs2 (compute_memory_access inp s) = rs2 s"
  "aluBusy (compute_memory_access inp s) = aluBusy s"
  "funct3IsShift (compute_memory_access inp s) = funct3IsShift s"
  "aluOut (compute_memory_access inp s) = aluOut s"
  "predicate (compute_memory_access inp s) = predicate s"
  "Uimm (compute_memory_access inp s) = Uimm s"
  by (simp_all add: compute_memory_access_def Let_def)

lemma update_pc_keeps [simp]:
  "state (update_pc s) = state s"
  "cycles (update_pc s) = cycles s"
  "registerFile (update_pc s) = registerFile s"
  "aluReg (update_pc s) = aluReg s"
  "aluShamt (update_pc s) = aluShamt s"
  "jumpToPCplusImm (update_pc s) = jumpToPCplusImm s"
  "mem_addr (update_pc s) = mem_addr s"
  "instr (update_pc s) = instr s"
  "full_instr (update_pc s) = full_instr s"
  "rdId (update_pc s) = rdId s"
  "funct3 (update_pc s) = funct3 s"
  "isLoad (update_pc s) = isLoad s"
  "isALUimm (update_pc s) = isALUimm s"
  "isStore (update_pc s) = isStore s"
  "isALUreg (update_pc s) = isALUreg s"
  "isSYSTEM (update_pc s) = isSYSTEM s"
  "isJAL (update_pc s) = isJAL s"
  "isJALR (update_pc s) = isJALR s"
  "isLUI (update_pc s) = isLUI s"
  "isAUIPC (update_pc s) = isAUIPC s"
  "isBranch (update_pc s) = isBranch s"
  "isALU (update_pc s) = isALU s"
  "rs1 (update_pc s) = rs1 s"
  "rs2 (update_pc s) = rs2 s"
  "aluBusy (update_pc s) = aluBusy s"
  "funct3IsShift (update_pc s) = funct3IsShift s"
  "aluOut (update_pc s) = aluOut s"
  "predicate (update_pc s) = predicate s"
  "LOAD_data (update_pc s) = LOAD_data s"
  "STORE_wmask (update_pc s) = STORE_wmask s"
  "loadstore_addr (update_pc s) = loadstore_addr s"
  "Uimm (update_pc s) = Uimm s"
  by (simp_all add: update_pc_def Let_def)

lemma decode_instruction_hold:
  "\<not> (state s = WAIT_INSTR \<and> \<not> mem_rbusy inp) \<Longrightarrow> decode_instruction inp s = s"
  unfolding decode_instruction_def by (rule if_not_P)

lemma compute_alu_aluBusy [simp]: "aluBusy (compute_alu s) = (aluShamt s \<noteq> 0)"
  by (simp add: compute_alu_def Let_def)

lemma update_pc_PC:
  "PC (update_pc s) =
     (if state s = EXECUTE then
        (if isJALR s then word_cat (bits_range (ADDR_WIDTH - 1) 1 (aluPlus s) :: 23 word) (0 :: 1 word)
         else if jumpToPCplusImm s then PCplusImm (update_pc s)
         else PC s + 4)
      else PC s)"
  by (simp add: update_pc_def Let_def)

lemma update_pc_PCplus4 [simp]: "PCplus4 (update_pc s) = PC s + 4"
  by (simp add: update_pc_def Let_def)

lemma combinational_process_arch [simp]:
  "state (combinational_process cfg inp s) = state s"
  "cycles (combinational_process cfg inp s) = cycles s"
  "registerFile (combinational_process cfg inp s) = registerFile s"
  "aluReg (combinational_process cfg inp s) = aluReg s"
  "aluShamt (combinational_process cfg inp s) = aluShamt s"
  by (simp_all add: combinational_process_def Let_def)

lemma combinational_process_PC_hold:
  "state s \<noteq> EXECUTE \<Longrightarrow> PC (combinational_process cfg inp s) = PC s"
  by (simp add: combinational_process_def Let_def update_pc_PC)

lemma combinational_process_instr_hold:
  "\<not> (state s = WAIT_INSTR \<and> \<not> mem_rbusy inp) \<Longrightarrow>
   instr (combinational_process cfg inp s) = instr s \<and>
   full_instr (combinational_process cfg inp s) = full_instr s"
  by (simp add: combinational_process_def Let_def decode_instruction_hold)

lemma combinational_process_aluBusy [simp]:
  "aluBusy (combinational_process cfg inp s) = (aluShamt s \<noteq> 0)"
  by (simp add: combinational_process_def Let_def)

lemma combinational_process_aluWr [simp]:
  "aluWr (combinational_process cfg inp s) =
     (state s = EXECUTE \<and> isALU (combinational_process cfg inp s))"
  by (simp add: combinational_process_def Let_def)

lemma combinational_process_needToWait:
  "needToWait (combinational_process cfg inp s) =
     (let s' = combinational_process cfg inp s in
      if NRV_IS_IO_ADDR cfg then isLoad s' \<or> (isALU s' \<and> funct3IsShift s')
      else isLoad s' \<or> isStore s' \<or> (isALU s' \<and> funct3IsShift s'))"
  by (simp add: combinational_process_def Let_def is_io_addr_def)

lemma update_state_keeps [simp]:
  "PC (update_state inp s) = PC s"
  "instr (update_state inp s) = instr s"
  "full_instr (update_state inp s) = full_instr s"
  "rdId (update_state inp s) = rdId s"
  "funct3 (update_state inp s) = funct3 s"
  "isLoad (update_state inp s) = isLoad s"
  "isALUimm (update_state inp s) = isALUimm s"
  "isStore (update_state inp s) = isStore s"
  "isALUreg (update_state inp s) = isALUreg s"
  "isSYSTEM (update_state inp s) = isSYSTEM s"
  "isJAL (update_state inp s) = isJAL s"
  "isJALR (update_state inp s) = isJALR s"
  "isLUI (update_state inp s) = isLUI s"
  "isAUIPC (update_state inp s) = isAUIPC s"
  "isBranch (update_state inp s) = isBranch s"
  "isALU (update_state inp s) = isALU s"
  "rs1 (update_state inp s) = rs1 s"
  "rs2 (update_state inp s) = rs2 s"
  "jumpToPCplusImm (update_state inp s) = jumpToPCplusImm s"
  "needToWait (update_state inp s) = needToWait s"
  "aluWr (update_state inp s) = aluWr s"
  "writeBack (update_state inp s) = writeBack s"
  "writeBackData (update_state inp s) = writeBackData s"
  "aluBusy (update_state inp s) = aluBusy s"
  "funct3IsShift (update_state inp s) = funct3IsShift s"
  "cycles (update_state inp s) = cycles s"
  "aluReg (update_state inp s) = aluReg s"
  "aluShamt (update_state inp s) = aluShamt s"
  "registerFile (update_state inp s) = registerFile s"
  by (simp_all add: update_state_def split: State.splits)

lemma clock_process_keeps [simp]:
  "reset inp \<Longrightarrow> PC (clock_process cfg inp s) = PC s"
  "reset inp \<Longrightarrow> instr (clock_process cfg inp s) = instr s"
  "reset inp \<Longrightarrow> full_instr (clock_process cfg inp s) = full_instr s"
  "reset inp \<Longrightarrow> rdId (clock_process cfg inp s) = rdId s"
  "reset inp \<Longrightarrow> funct3 (clock_process cfg inp s) = funct3 s"
  "reset inp \<Longrightarrow> isLoad (clock_process cfg inp s) = isLoad s"
  "reset inp \<Longrightarrow> isALUimm (clock_process cfg inp s) = isALUimm s"
  "reset inp \<Longrightarrow> isStore (clock_process cfg inp s) = isStore s"
  "reset inp \<Longrightarrow> isALUreg (clock_process cfg inp s) = isALUreg s"
  "reset inp \<Longrightarrow> isSYSTEM (clock_process cfg inp s) = isSYSTEM s"
  "reset inp \<Longrightarrow> isJAL (clock_process cfg inp s) = isJAL s"
  "reset inp \<Longrightarrow> isJALR (clock_process cfg inp s) = isJALR s"
  "reset inp \<Longrightarrow> isLUI (clock_process cfg inp s) = isLUI s"
  "reset inp \<Longrightarrow> isAUIPC (clock_process cfg inp s) = isAUIPC s"
  "reset inp \<Longrightarrow> isBranch (clock_process cfg inp s) = isBranch s"
  "reset inp \<Longrightarrow> isALU (clock_process cfg inp s) = isALU s"
  "reset inp \<Longrightarrow> rs1 (clock_process cfg inp s) = rs1 s"
  "reset inp \<Longrightarrow> rs2 (clock_process cfg inp s) = rs2 s"
  "reset inp \<Longrightarrow> jumpToPCplusImm (clock_process cfg inp s) = jumpToPCplusImm s"
  "reset inp \<Longrightarrow> needToWait (clock_process cfg inp s) = needToWait s"
  "reset inp \<Longrightarrow> aluWr (clock_process cfg inp s) = aluWr s"
  "reset inp \<Longrightarrow> writeBack (clock_process cfg inp s) = writeBack s"
  "reset inp \<Longrightarrow> writeBackData (clock_process cfg inp s) = writeBackData s"
  "reset inp \<Longrightarrow> aluBusy (clock_process cfg inp s) = aluBusy s"
  "reset inp \<Longrightarrow> funct3IsShift (clock_process cfg inp s) = funct3IsShift s"
  by (simp_all add: clock_process_def Let_def)

lemma combinational_process_decoded [simp]:
  "instr (combinational_process cfg inp s) = instr (decode_instruction inp s)"
  "full_instr (combinational_process cfg inp s) = full_instr (decode_instruction inp s)"
  "rdId (combinational_process cfg inp s) = rdId (decode_instruction inp s)"
  "funct3 (combinational_process cfg inp s) = funct3 (decode_instruction inp s)"
  "isLoad (combinational_process cfg inp s) = isLoad (decode_instruction inp s)"
  "isALUimm (combinational_process cfg inp s) = isALUimm (decode_instruction inp s)"
  "isStore (combinational_process cfg inp s) = isStore (decode_instruction inp s)"
  "isALUreg (combinational_process cfg inp s) = isALUreg (decode_instruction inp s)"
  "isSYSTEM (combinational_process cfg inp s) = isSYSTEM (decode_instruction inp s)"
  "isJAL (combinational_process cfg inp s) = isJAL (decode_instruction inp s)"
  "isJALR (combinational_process cfg inp s) = isJALR (decode_instruction inp s)"
  "isLUI (combinational_process cfg inp s) = isLUI (decode_instruction inp s)"
  "isAUIPC (combinational_process cfg inp s) = isAUIPC (decode_instruction inp s)"
  "isBranch (combinational_process cfg inp s) = isBranch (decode_instruction inp s)"
  "isALU (combinational_process cfg inp s) = isALU (decode_instruction inp s)"
  "rs1 (combinational_process cfg inp s) = rs1 (decode_instruction inp s)"
  "rs2 (combinational_process cfg inp s) = rs2 (decode_instruction inp s)"
  by (simp_all add: combinational_process_def Let_def)

lemma decode_instruction_capture:
  assumes "state s = WAIT_INSTR" and "\<not> mem_rbusy inp"
  shows "rdId (decode_instruction inp s) = bits_range 11 7 (mem_rdata inp)"
    and "funct3 (decode_instruction inp s) = bits_range 14 12 (mem_rdata inp)"
    and "instr (decode_instruction inp s) = bits_range 31 2 (mem_rdata inp)"
    and "full_instr (decode_instruction inp s) = mem_rdata inp"
    and "isJAL (decode_instruction inp s) = bit (mem_rdata inp) 3"
    and "isLoad (decode_instruction inp s) = ((bits_range 6 2 (mem_rdata inp) :: 5 word) = 0x00)"
    and "isALUimm (decode_instruction inp s) = ((bits_range 6 2 (mem_rdata inp) :: 5 word) = 0x04)"
    and "isStore (decode_instruction inp s) = ((bits_range 6 2 (mem_rdata inp) :: 5 word) = 0x08)"
    and "isALUreg (decode_instruction inp s) = ((bits_range 6 2 (mem_rdata inp) :: 5 word) = 0x0C)"
    and "isSYSTEM (decode_instruction inp s) = ((bits_range 6 2 (mem_rdata inp) :: 5 word) = 0x1C)"
    and "isJALR (decode_instruction inp s) = ((bits_range 6 2 (mem_rdata inp) :: 5 word) = 0x19)"
    and "isLUI (decode_instruction inp s) = ((bits_range 6 2 (mem_rdata inp) :: 5 word) = 0x0D)"
    and "isAUIPC (decode_instruction inp s) = ((bits_range 6 2 (mem_rdata inp) :: 5 word) = 0x05)"
    and "isBranch (decode_instruction inp s) = ((bits_range 6 2 (mem_rdata inp) :: 5 word) = 0x18)"
    and "isALU (decode_instruction inp s) = ((bits_range 6 2 (mem_rdata inp) :: 5 word) = 0x04 \<or> (bits_range 6 2 (mem_rdata inp) :: 5 word) = 0x0C)"
  using assms by (simp_all add: decode_instruction_def Let_def)

lemma combinational_process_writeBack [simp]:
  "writeBack (combinational_process cfg inp s) =
     (\<not> (isBranch (decode_instruction inp s) \<or> isStore (decode_instruction inp s)) \<and>
      (state s = EXECUTE \<or> state s = WAIT_ALU_OR_MEM))"
  by (simp add: combinational_process_def Let_def)

lemma combinational_process_jump [simp]:
  "jumpToPCplusImm (combinational_process cfg inp s) =
     (isJAL (decode_instruction inp s) \<or>
      (isBranch (decode_instruction inp s) \<and> predicate (combinational_process cfg inp s)))"
  by (simp add: combinational_process_def Let_def)

lemma combinational_process_PC_plus4:
  "state s = EXECUTE \<Longrightarrow> \<not> isJALR s \<Longrightarrow> \<not> jumpToPCplusImm s \<Longrightarrow>
   PC (combinational_process cfg inp s) = PC s + 4"
  by (simp add: combinational_process_def Let_def update_pc_PC decode_instruction_hold)

lemma combinational_process_writeBackData:
  "writeBackData (combinational_process cfg inp s) =
     (let s' = combinational_process cfg inp s in
      (if isSYSTEM s' then cycles s else 0) OR
      (if isLUI s' then Uimm s' else 0) OR
      (if isALU s' then aluOut s' else 0) OR
      (if isAUIPC s' then PCplusImm s' else 0) OR
      (if isJALR s' \<or> isJAL s' then PC s + 4 else 0) OR
      (if isLoad s' then LOAD_data s' else 0))"
  by (simp add: combinational_process_def Let_def)

lemma update_state_state:
  "state (update_state inp s) =
     (case state s of
        WAIT_INSTR \<Rightarrow> (if \<not> mem_rbusy inp then EXECUTE else WAIT_INSTR)
      | EXECUTE \<Rightarrow> (if needToWait s then WAIT_ALU_OR_MEM else FETCH_INSTR)
      | WAIT_ALU_OR_MEM \<Rightarrow>
          (if \<not> aluBusy s \<and> \<not> mem_rbusy inp \<and> \<not> mem_wbusy inp
           then FETCH_INSTR else WAIT_ALU_OR_MEM)
      | FETCH_INSTR \<Rightarrow> WAIT_INSTR)"
  by (simp add: update_state_def split: State.splits)

lemma clock_process_state:
  "reset inp \<Longrightarrow>
   state (clock_process cfg inp s) =
     (case state s of
        WAIT_INSTR \<Rightarrow> (if \<not> mem_rbusy inp then EXECUTE else WAIT_INSTR)
      | EXECUTE \<Rightarrow> (if needToWait s then WAIT_ALU_OR_MEM else FETCH_INSTR)
      | WAIT_ALU_OR_MEM \<Rightarrow>
          (if \<not> aluBusy s \<and> \<not> mem_rbusy inp \<and> \<not> mem_wbusy inp
           then FETCH_INSTR else WAIT_ALU_OR_MEM)
      | FETCH_INSTR \<Rightarrow> WAIT_INSTR)"
  by (simp add: clock_process_def Let_def update_state_state)

lemma clock_process_registerFile:
  "reset inp \<Longrightarrow>
   registerFile (clock_process cfg inp s) =
     (if writeBack s \<and> rdId s \<noteq> 0 then (registerFile s)(rdId s := writeBackData s)
      else registerFile s)"
  by (simp add: clock_process_def Let_def)

lemma clock_process_cycles:
  "reset inp \<Longrightarrow> cycles (clock_process cfg inp s) = cycles s + 1"
  by (simp add: clock_process_def Let_def)

lemma clock_process_aluShamt:
  "reset inp \<Longrightarrow>
   aluShamt (clock_process cfg inp s) =
     (if aluWr s \<and> funct3IsShift s then bits_range 4 0 (aluIn2 s)
      else if aluShamt s \<noteq> 0 then
        (if NRV_TWOLEVEL_SHIFTER cfg \<and> (bits_range 4 2 (aluShamt s) :: 3 word) \<noteq> 0
         then aluShamt s - 4 else aluShamt s - 1)
      else aluShamt s)"
  by (simp add: clock_process_def Let_def)

lemma cycle_capture:
  assumes "state s = WAIT_INSTR" and "reset inp" and "\<not> mem_rbusy inp"
  shows "state (cycle cfg inp s) = EXECUTE"
    and "PC (cycle cfg inp s) = PC s"
    and "registerFile (cycle cfg inp s) = registerFile s"
    and "cycles (cycle cfg inp s) = cycles s + 1"
    and "rdId (cycle cfg inp s) = bits_range 11 7 (mem_rdata inp)"
    and "isJAL (cycle cfg inp s) = bit (mem_rdata inp) 3"
    and "isLoad (cycle cfg inp s) = ((bits_range 6 2 (mem_rdata inp) :: 5 word) = 0x00)"
    and "isStore (cycle cfg inp s) = ((bits_range 6 2 (mem_rdata inp) :: 5 word) = 0x08)"
    and "isSYSTEM (cycle cfg inp s) = ((bits_range 6 2 (mem_rdata inp) :: 5 word) = 0x1C)"
    and "isJALR (cycle cfg inp s) = ((bits_range 6 2 (mem_rdata inp) :: 5 word) = 0x19)"
    and "isLUI (cycle cfg inp s) = ((bits_range 6 2 (mem_rdata inp) :: 5 word) = 0x0D)"
    and "isAUIPC (cycle cfg inp s) = ((bits_range 6 2 (mem_rdata inp) :: 5 word) = 0x05)"
    and "isBranch (cycle cfg inp s) = ((bits_range 6 2 (mem_rdata inp) :: 5 word) = 0x18)"
    and "isALU (cycle cfg inp s) =
           ((bits_range 6 2 (mem_rdata inp) :: 5 word) = 0x04 \<or>
            (bits_range 6 2 (mem_rdata inp) :: 5 word) = 0x0C)"
    and "jumpToPCplusImm (cycle cfg inp s) =
           (bit (mem_rdata inp) 3 \<or>
            ((bits_range 6 2 (mem_rdata inp) :: 5 word) = 0x18 \<and>
             predicate (combinational_process cfg inp s)))"
  using assms
  by (simp_all add: cycle_def clock_process_state clock_process_registerFile
        clock_process_cycles combinational_process_PC_hold
        decode_instruction_capture [OF assms(1) assms(3)])

lemma cycle_execute:
  assumes "state t = EXECUTE" and "reset inp"
  shows "state (cycle cfg inp t) =
           (if needToWait (combinational_process cfg inp t)
            then WAIT_ALU_OR_MEM else FETCH_INSTR)"
    and "\<not> isJALR t \<Longrightarrow> \<not> jumpToPCplusImm t \<Longrightarrow> PC (cycle cfg inp t) = PC t + 4"
    and "registerFile (cycle cfg inp t) =
           (if \<not> (isBranch t \<or> isStore t) \<and> rdId t \<noteq> 0
            then (registerFile t)(rdId t := writeBackData (combinational_process cfg inp t))
            else registerFile t)"
    and "cycles (cycle cfg inp t) = cycles t + 1"
    and "isLoad (combinational_process cfg inp t) = isLoad t"
    and "isStore (combinational_process cfg inp t) = isStore t"
    and "isALU (combinational_process cfg inp t) = isALU t"
    and "isSYSTEM (combinational_process cfg inp t) = isSYSTEM t"
    and "isLUI (combinational_process cfg inp t) = isLUI t"
    and "isAUIPC (combinational_process cfg inp t) = isAUIPC t"
    and "isJALR (combinational_process cfg inp t) = isJALR t"
    and "isJAL (combinational_process cfg inp t) = isJAL t"
  using assms
  by (simp_all add: cycle_def clock_process_state clock_process_registerFile
        clock_process_cycles combinational_process_PC_plus4 decode_instruction_hold)

lemma bits_range_6_2_bit1: "bit (bits_range 6 2 (w :: 32 word) :: 5 word) (Suc 0) = bit w 3"
  by (simp add: bits_range_def bit_simps)

lemma shamt_ge4: "((bits_range 4 2 (sh :: 5 word) :: 3 word) \<noteq> 0) = (4 \<le> unat sh)"
proof -
  have lt: "unat sh < 32" using unsigned_less [of sh, where 'a = nat] by simp
  have "unat (bits_range 4 2 sh :: 3 word) = unat sh div 4"
    using lt unfolding bits_range_def
    by (simp only: unsigned_ucast_eq unsigned_take_bit_eq unsigned_drop_bit_eq)
       (simp add: take_bit_eq_mod drop_bit_eq_div)
  moreover have "((bits_range 4 2 sh :: 3 word) \<noteq> 0) = (unat (bits_range 4 2 sh :: 3 word) \<noteq> 0)"
    by (simp add: unat_eq_0)
  ultimately show ?thesis by auto
qed

lemma shamt_step:
  assumes "reset inp" and "\<not> (aluWr s \<and> funct3IsShift s)" and "aluShamt s \<noteq> 0"
  shows "unat (aluShamt (clock_process cfg inp s)) =
           unat (aluShamt s) -
             (if NRV_TWOLEVEL_SHIFTER cfg \<and> 4 \<le> unat (aluShamt s) then 4 else 1)"
    and "(if NRV_TWOLEVEL_SHIFTER cfg \<and> 4 \<le> unat (aluShamt s) then 4 else (1::nat))
           \<le> unat (aluShamt s)"
    and "unat (aluShamt (clock_process cfg inp s)) < unat (aluShamt s)"
proof -
  have pos: "0 < unat (aluShamt s)" using assms(3) by (simp add: unat_gt_0)
  have one: "unat (aluShamt s - 1) = unat (aluShamt s) - 1"
    using assms(3) by (simp add: unat_minus_one)
  have four: "4 \<le> unat (aluShamt s) \<Longrightarrow> unat (aluShamt s - 4) = unat (aluShamt s) - 4"
    by (subst unat_sub) (simp_all add: word_le_nat_alt)
  show "unat (aluShamt (clock_process cfg inp s)) =
           unat (aluShamt s) -
             (if NRV_TWOLEVEL_SHIFTER cfg \<and> 4 \<le> unat (aluShamt s) then 4 else 1)"
    using assms one four by (auto simp add: clock_process_aluShamt shamt_ge4)
  then show "unat (aluShamt (clock_process cfg inp s)) < unat (aluShamt s)"
    using pos by (simp split: if_splits)
  show "(if NRV_TWOLEVEL_SHIFTER cfg \<and> 4 \<le> unat (aluShamt s) then 4 else (1::nat))
           \<le> unat (aluShamt s)"
    using pos by simp
qed

lemma wait_cycle:
  assumes "state s = WAIT_ALU_OR_MEM" and "reset inp" and "\<not> mem_rbusy inp" and "\<not> mem_wbusy inp"
  shows "aluShamt s = 0 \<Longrightarrow> state (cycle cfg inp s) = FETCH_INSTR"
    and "aluShamt s \<noteq> 0 \<Longrightarrow> state (cycle cfg inp s) = WAIT_ALU_OR_MEM"
    and "aluShamt s \<noteq> 0 \<Longrightarrow> unat (aluShamt (cycle cfg inp s)) < unat (aluShamt s)"
proof -
  show "aluShamt s = 0 \<Longrightarrow> state (cycle cfg inp s) = FETCH_INSTR"
    using assms by (simp add: cycle_def clock_process_state)
  show "aluShamt s \<noteq> 0 \<Longrightarrow> state (cycle cfg inp s) = WAIT_ALU_OR_MEM"
    using assms by (simp add: cycle_def clock_process_state)
  assume nz: "aluShamt s \<noteq> 0"
  have "\<not> (aluWr (combinational_process cfg inp s) \<and>
            funct3IsShift (combinational_process cfg inp s))"
    using assms(1) by simp
  from shamt_step(3) [OF assms(2) this, of cfg] nz
  show "unat (aluShamt (cycle cfg inp s)) < unat (aluShamt s)"
    by (simp add: cycle_def)
qed

lemma run_wait:
  assumes "state s = WAIT_ALU_OR_MEM"
    and "\<forall>inp \<in> set inps. reset inp \<and> \<not> mem_rbusy inp \<and> \<not> mem_wbusy inp"
    and "unat (aluShamt s) < length inps"
  shows "\<exists>k \<le> unat (aluShamt s).
           aluShamt (run cfg (take k inps) s) = 0 \<and>
           (\<forall>j \<le> k. state (run cfg (take j inps) s) = WAIT_ALU_OR_MEM) \<and>
           state (run cfg (take (Suc k) inps) s) = FETCH_INSTR"
  using assms
proof (induction "unat (aluShamt s)" arbitrary: s inps rule: less_induct)
  case less
  obtain inp rest where inps: "inps = inp # rest"
    using less.prems(3) by (cases inps) auto
  have ok: "reset inp" "\<not> mem_rbusy inp" "\<not> mem_wbusy inp"
    using less.prems(2) inps by auto
  note wc = wait_cycle [OF less.prems(1) ok, of cfg]
  show ?case
  proof (cases "aluShamt s = 0")
    case True
    have "state (cycle cfg inp s) = FETCH_INSTR" using wc(1) True by simp
    then show ?thesis using True less.prems(1) inps by (intro exI [of _ 0]) simp
  next
    case False
    let ?s' = "cycle cfg inp s"
    have st: "state ?s' = WAIT_ALU_OR_MEM" using wc(2) False by simp
    have dec: "unat (aluShamt ?s') < unat (aluShamt s)" using wc(3) False by simp
    have rest_ok: "\<forall>i \<in> set rest. reset i \<and> \<not> mem_rbusy i \<and> \<not> mem_wbusy i"
      using less.prems(2) inps by simp
    have len: "unat (aluShamt ?s') < length rest"
      using dec less.prems(3) inps by simp
    from less.hyps [OF dec st rest_ok len]
    obtain k where k: "k \<le> unat (aluShamt ?s')"
      "aluShamt (run cfg (take k rest) ?s') = 0"
      "\<forall>j \<le> k. state (run cfg (take j rest) ?s') = WAIT_ALU_OR_MEM"
      "state (run cfg (take (Suc k) rest) ?s') = FETCH_INSTR"
      by blast
    have all: "\<forall>j \<le> Suc k. state (run cfg (take j inps) s) = WAIT_ALU_OR_MEM"
    proof (intro allI impI)
      fix j assume "j \<le> Suc k"
      then show "state (run cfg (take j inps) s) = WAIT_ALU_OR_MEM"
        using k(3) less.prems(1) inps by (cases j) simp_all
    qed
    have "Suc k \<le> unat (aluShamt s)" using k(1) dec by simp
    moreover have "aluShamt (run cfg (take (Suc k) inps) s) = 0"
      using k(2) inps by simp
    moreover have "state (run cfg (take (Suc (Suc k)) inps) s) = FETCH_INSTR"
      using k(4) inps by simp
    ultimately show ?thesis using all by blast
  qed
qed

lemma compute_alu_funct3IsShift [simp]:
  "funct3IsShift (compute_alu s) = (funct3 s = ALU_SLL \<or> funct3 s = ALU_SRL_SRA)"
  by (simp add: compute_alu_def Let_def)

lemma combinational_process_funct3IsShift:
  "funct3IsShift (combinational_process cfg inp s) =
     (funct3 (decode_instruction inp s) = ALU_SLL \<or>
      funct3 (decode_instruction inp s) = ALU_SRL_SRA)"
  by (simp add: combinational_process_def Let_def)

lemma execute_shift_cycle:
  assumes "state s = EXECUTE" and "reset inp" and "isALU s"
    and "funct3 s = ALU_SLL \<or> funct3 s = ALU_SRL_SRA"
  shows "state (cycle cfg inp s) = WAIT_ALU_OR_MEM"
proof -
  have hold: "decode_instruction inp s = s"
    using assms(1) by (simp add: decode_instruction_hold)
  have "needToWait (combinational_process cfg inp s)"
    using assms(3,4)
    by (simp add: combinational_process_needToWait Let_def
          combinational_process_funct3IsShift hold)
  then show ?thesis
    using assms(1,2) by (simp add: cycle_def clock_process_state)
qed

lemma run_execute_shift:
  assumes "state s = EXECUTE" and "isALU s"
    and "funct3 s = ALU_SLL \<or> funct3 s = ALU_SRL_SRA"
    and "\<forall>i \<in> set inps. reset i \<and> \<not> mem_rbusy i \<and> \<not> mem_wbusy i"
    and "32 < length inps"
  shows "\<exists>k \<le> 33. state (run cfg (take k inps) s) = FETCH_INSTR"
proof -
  obtain inp rest where inps: "inps = inp # rest"
    using assms(5) by (cases inps) auto
  let ?s' = "cycle cfg inp s"
  have ok: "reset inp" using assms(4) inps by simp
  have st: "state ?s' = WAIT_ALU_OR_MEM"
    by (rule execute_shift_cycle [OF assms(1) ok assms(2) assms(3)])
  have rest_ok: "\<forall>i \<in> set rest. reset i \<and> \<not> mem_rbusy i \<and> \<not> mem_wbusy i"
    using assms(4) inps by simp
  have lt: "unat (aluShamt ?s') < 32"
    using unsigned_less [of "aluShamt ?s'", where 'a = nat] by simp
  then have len: "unat (aluShamt ?s') < length rest"
    using assms(5) inps by simp
  from run_wait [OF st rest_ok len]
  obtain k where k: "k \<le> unat (aluShamt ?s')"
    "state (run cfg (take (Suc k) rest) ?s') = FETCH_INSTR"
    by blast
  have "Suc (Suc k) \<le> 33" using k(1) lt by simp
  moreover have "state (run cfg (take (Suc (Suc k)) inps) s) = FETCH_INSTR"
    using k(2) inps by simp
  ultimately show ?thesis by blast
qed

section \<open>The immediates\<close>

text \<open>
  Claim C1 asks that \<open>Simm\<close>, \<open>Bimm\<close> and \<open>Jimm\<close> be sign-extended to 32 bits, so that
  every bit above the payload is 1 when bit 31 of the instruction word is 1. The source
  builds the upper part with \<^verbatim>\<open>sc_uint<21>(instr[29])\<close> (and widths 20 and 12), which
  is the value 0 or 1 and not a replicated bit. The theorem evaluates the decoder on three
  words with bit 31 set: \<^verbatim>\<open>sw x1, -4(x2)\<close> (\<open>0xFE112E23\<close>), \<^verbatim>\<open>beq x0, x0, -8\<close>
  (\<open>0xFE000CE3\<close>) and \<^verbatim>\<open>jal x0, -4\<close> (\<open>0xFFDFF06F\<close>). The sign-extended values
  would be \<open>0xFFFFFFFC\<close>, \<open>0xFFFFFFF8\<close> and \<open>0xFFFFFFFC\<close>; the source yields the payload
  alone, with zeros above it.
\<close>

theorem immediates_not_sign_extended:
  "Simm (combinational_process cfg_default (bus 0xFE112E23) wait_instr_core) = 0x00000FFC \<and>
   Bimm (combinational_process cfg_default (bus 0xFE000CE3) wait_instr_core) = 0x00001FF8 \<and>
   Jimm (combinational_process cfg_default (bus 0xFFDFF06F) wait_instr_core) = 0x001FFFFC \<and>
   Iimm (combinational_process cfg_default (bus 0xFFC10113) wait_instr_core) = 0xFFFFFFFC"
  by code_simp

text \<open>
  Claim C6 asks that \<open>Uimm\<close> be bits 31 to 12 of the word followed by twelve zeros for
  every word, those below \<open>0x10000\<close> included. The source has a separate path for an AUIPC
  or LUI word below \<open>0x10000\<close>, which sets \<open>Uimm\<close> to zero for AUIPC. The theorem runs
  \<^verbatim>\<open>auipc x2, 1\<close> (\<open>0x00001117\<close>, a word of the repository's own focused test, which
  expects \<open>PC + 0x1000\<close>) at \<open>PC = 0\<close>: \<open>Uimm\<close> is 0 where the formula gives \<open>0x1000\<close>,
  and \<open>x2\<close> receives 0.
\<close>

theorem Uimm_zero_for_small_AUIPC:
  "Uimm (combinational_process cfg_default (bus 0x00001117) wait_instr_core) = 0 \<and>
   registerFile (run cfg_default [bus 0x00001117, bus 0x00001117] wait_instr_core) 2 = 0 \<and>
   state (run cfg_default [bus 0x00001117, bus 0x00001117] wait_instr_core) = FETCH_INSTR"
  by code_simp

section \<open>The instruction classes\<close>

text \<open>
  Claim C7 asks that \<open>isJAL\<close> be set exactly when bits 6 to 2 of the word are \<open>11011\<close>,
  and in particular that a FENCE word (bits 6 to 2 equal to \<open>00011\<close>) does not set it. The
  source assigns \<^verbatim>\<open>isJAL = instruction[3]\<close>, while the nine other flags compare all five
  bits. The theorem decodes the FENCE word \<open>0x0FF0000F\<close>: \<open>isJAL\<close> is set, no other class
  flag is, and the execution of the word moves \<open>PC\<close> from 0 to \<open>0x8FE\<close> as a jump would.
\<close>

theorem isJAL_set_by_FENCE:
  "(bits_range 6 2 (0x0FF0000F :: 32 word) :: 5 word) = 0x03 \<and>
   isJAL (combinational_process cfg_default (bus 0x0FF0000F) wait_instr_core) \<and>
   PC (run cfg_default [bus 0x0FF0000F, bus 0x0FF0000F] wait_instr_core) = 0x8FE"
  by code_simp

section \<open>The load aligner\<close>

text \<open>
  Claim C2 asks that a byte load return the byte selected by the low address bits,
  sign-extended when bit 2 of \<open>funct3\<close> is 0. The source tests
  \<^verbatim>\<open>instr.range(13, 12)\<close> on the 30-bit \<^verbatim>\<open>instr\<close>, which holds bits 31 to 2 of the
  word, so the test reads bits 15 and 14 of the word and not bits 13 and 12; and it builds
  the upper part of the result with \<^verbatim>\<open>sc_uint<24>(LOAD_sign)\<close>, the value 0 or 1. The
  theorem runs two byte loads with the memory word \<open>0x12345680\<close> at address 0, whose low
  byte \<open>0x80\<close> sign-extends to \<open>0xFFFFFF80\<close>. \<^verbatim>\<open>lb x3, 0(x1)\<close> (\<open>0x00008183\<close>) is not
  seen as a byte access and writes the whole word to \<open>x3\<close>; \<^verbatim>\<open>lb x3, 0(x2)\<close>
  (\<open>0x00010183\<close>) is seen as a byte access and writes \<open>0x00000180\<close>.
\<close>

theorem load_byte_not_sign_extended:
  "mem_byteAccess (combinational_process cfg_default (bus 0x12345680)
      (cycle cfg_default (bus 0x00008183) wait_instr_core)) = False \<and>
   registerFile (run cfg_default [bus 0x00008183, bus 0x12345680, bus 0x12345680]
      wait_instr_core) 3 = 0x12345680 \<and>
   mem_byteAccess (combinational_process cfg_default (bus 0x12345680)
      (cycle cfg_default (bus 0x00010183) wait_instr_core)) = True \<and>
   registerFile (run cfg_default [bus 0x00010183, bus 0x12345680, bus 0x12345680]
      wait_instr_core) 3 = 0x00000180"
  by code_simp

section \<open>Who writes the architectural state\<close>

text \<open>
  Claim C3 asks that the combinational evaluation write none of \<open>PC\<close>, the registers,
  \<open>state\<close>, \<open>cycles\<close>, \<open>aluReg\<close>, \<open>aluShamt\<close> and the latched instruction. In the source
  \<^verbatim>\<open>combinational_process\<close> calls \<^verbatim>\<open>update_pc\<close>, which assigns \<open>PC\<close> in \<open>EXECUTE\<close>, and
  \<^verbatim>\<open>decode_instruction\<close>, which latches the word in \<open>WAIT_INSTR\<close>. The counterexample
  takes the core three clock events after construction, in \<open>EXECUTE\<close> on
  \<^verbatim>\<open>addi x1, x0, 5\<close>: one evaluation of the combinational process moves \<open>PC\<close> from 0 to
  4; one event earlier, in \<open>WAIT_INSTR\<close>, it changes the latched word from 0 to the word
  on the bus.
\<close>

theorem combinational_process_writes_PC_and_instr:
  "state (run cfg_default [bus 0x00500093, bus 0x00500093, bus 0x00500093] init_core) = EXECUTE \<and>
   PC (run cfg_default [bus 0x00500093, bus 0x00500093, bus 0x00500093] init_core) = 0 \<and>
   PC (combinational_process cfg_default (bus 0x00500093)
        (run cfg_default [bus 0x00500093, bus 0x00500093, bus 0x00500093] init_core)) = 4 \<and>
   state (run cfg_default [bus 0x00500093, bus 0x00500093] init_core) = WAIT_INSTR \<and>
   full_instr (run cfg_default [bus 0x00500093, bus 0x00500093] init_core) = 0 \<and>
   full_instr (combinational_process cfg_default (bus 0x00500093)
        (run cfg_default [bus 0x00500093, bus 0x00500093] init_core)) = 0x00500093"
  by code_simp

text \<open>
  Claim C3 as amended: for every input and every state the combinational evaluation
  leaves the registers, \<open>state\<close>, \<open>cycles\<close>, \<open>aluReg\<close> and \<open>aluShamt\<close> unchanged, so the
  clocked update is their only writer; it leaves \<open>PC\<close> unchanged in every state but
  \<open>EXECUTE\<close>, and the latched instruction unchanged unless the state is \<open>WAIT_INSTR\<close> and
  \<open>mem_rbusy\<close> is low.
\<close>

theorem combinational_process_frame:
  "registerFile (combinational_process cfg inp s) = registerFile s \<and>
   state (combinational_process cfg inp s) = state s \<and>
   cycles (combinational_process cfg inp s) = cycles s \<and>
   aluReg (combinational_process cfg inp s) = aluReg s \<and>
   aluShamt (combinational_process cfg inp s) = aluShamt s \<and>
   (state s \<noteq> EXECUTE \<longrightarrow> PC (combinational_process cfg inp s) = PC s) \<and>
   (\<not> (state s = WAIT_INSTR \<and> \<not> mem_rbusy inp) \<longrightarrow>
      instr (combinational_process cfg inp s) = instr s \<and>
      full_instr (combinational_process cfg inp s) = full_instr s)"
  using combinational_process_PC_hold [of s cfg inp]
        combinational_process_instr_hold [of s inp cfg]
  by simp

text \<open>
  The amended claim C3 at the constructed core, which is in \<open>WAIT_ALU_OR_MEM\<close>: neither
  \<open>PC\<close> nor the latched instruction is written.
\<close>

theorem combinational_process_frame_witness:
  "state init_core \<noteq> EXECUTE \<and>
   \<not> (state init_core = WAIT_INSTR \<and> \<not> mem_rbusy (bus 0x00500093)) \<and>
   PC (combinational_process cfg_default (bus 0x00500093) init_core) = PC init_core \<and>
   full_instr (combinational_process cfg_default (bus 0x00500093) init_core) =
     full_instr init_core \<and>
   registerFile (combinational_process cfg_default (bus 0x00500093) init_core) =
     registerFile init_core"
  using combinational_process_frame [of cfg_default "bus 0x00500093" init_core]
  by (simp add: init_core_def)

section \<open>The control state machine\<close>

text \<open>
  Claim C5: on every clock event the control state steps as the four-state relation of the
  specification says, with \<open>needToWait = isLoad || isStore || (isALU && funct3IsShift)\<close>.
  The theorem compares the state after one evaluation of the combinational process and
  the clocked process with \<open>fsm_next\<close>, for every state and input of a build without the
  I/O address hook; when the clocked process takes its reset branch the state is
  \<open>WAIT_ALU_OR_MEM\<close>, as the relation says of reset.
\<close>

theorem update_state_refines_fsm_next:
  assumes "\<not> NRV_IS_IO_ADDR cfg"
  shows "state (clock_process cfg inp (combinational_process cfg inp s)) =
           (if reset inp then
              fsm_next (state s) (aluShamt s \<noteq> 0) (mem_rbusy inp) (mem_wbusy inp)
                (isLoad (combinational_process cfg inp s) \<or>
                 isStore (combinational_process cfg inp s) \<or>
                 (isALU (combinational_process cfg inp s) \<and>
                  funct3IsShift (combinational_process cfg inp s)))
            else WAIT_ALU_OR_MEM)"
proof (cases "reset inp")
  case True
  then show ?thesis
    using assms
    by (cases "state s")
       (simp_all add: clock_process_state combinational_process_needToWait fsm_next_def Let_def
             del: combinational_process_decoded)
next
  case False
  then show ?thesis by (simp add: clock_process_def)
qed

text \<open>
  Claim C5 at a core in \<open>EXECUTE\<close> on a store: the next state is \<open>WAIT_ALU_OR_MEM\<close>.
\<close>

theorem update_state_refines_fsm_next_witness:
  "\<not> NRV_IS_IO_ADDR cfg_default \<and>
   state (clock_process cfg_default (bus 0)
           (combinational_process cfg_default (bus 0)
             (init_core\<lparr> state := EXECUTE, isStore := True \<rparr>))) = WAIT_ALU_OR_MEM"
  using update_state_refines_fsm_next
          [of cfg_default "bus 0" "init_core\<lparr> state := EXECUTE, isStore := True \<rparr>"]
  by (simp add: cfg_default_def bus_def fsm_next_def decode_instruction_hold)

section \<open>Instructions outside the decode table\<close>

text \<open>
  Claim C4 asks that a word matching no class of the decode table change no register.
  The source asserts \<open>writeBack\<close> for every instruction that is neither a branch nor a
  store, and \<open>writeBackData\<close> is zero when no class flag is set. The counterexample runs
  the word \<open>0x00000087\<close> (bits 6 to 2 equal to \<open>00001\<close>, bit 3 clear, \<open>rd = 1\<close>) with
  \<open>x1 = 5\<close>: after the two clock events of the instruction \<open>x1\<close> is 0.
\<close>

theorem illegal_instruction_clears_rd:
  "(bits_range 6 2 (0x00000087 :: 32 word) :: 5 word) = 0x01 \<and>
   registerFile (wait_instr_core\<lparr> registerFile := (\<lambda>_. 0)(1 := 5) \<rparr>) 1 = 5 \<and>
   registerFile (run cfg_default [bus 0x00000087, bus 0]
      (wait_instr_core\<lparr> registerFile := (\<lambda>_. 0)(1 := 5) \<rparr>)) 1 = 0"
  by code_simp

text \<open>
  Claim C4 as amended: for every fetched word that sets no class flag (bits 6 to 2 match
  no class of the table and bit 3 is clear), the clock event that captures the word
  leaves \<open>PC\<close> and the registers unchanged and enters \<open>EXECUTE\<close>; the next one advances
  \<open>PC\<close> by exactly 4, returns to \<open>FETCH_INSTR\<close> and changes no register other than
  \<open>x[rd]\<close>, which it sets to zero when \<open>rd\<close> is not 0.
\<close>

theorem illegal_instruction_advances_PC_zeroes_rd:
  assumes "state s = WAIT_INSTR" and "reset inp1" and "\<not> mem_rbusy inp1" and "reset inp2"
    and "(bits_range 6 2 (mem_rdata inp1) :: 5 word) \<notin>
           {0x00, 0x04, 0x05, 0x08, 0x0C, 0x0D, 0x18, 0x19, 0x1C}"
    and "\<not> bit (mem_rdata inp1) 3"
  shows "state (cycle cfg inp1 s) = EXECUTE \<and>
         PC (cycle cfg inp1 s) = PC s \<and>
         registerFile (cycle cfg inp1 s) = registerFile s \<and>
         state (cycle cfg inp2 (cycle cfg inp1 s)) = FETCH_INSTR \<and>
         PC (cycle cfg inp2 (cycle cfg inp1 s)) = PC s + 4 \<and>
         registerFile (cycle cfg inp2 (cycle cfg inp1 s)) =
           (if (bits_range 11 7 (mem_rdata inp1) :: 5 word) = 0 then registerFile s
            else (registerFile s)(bits_range 11 7 (mem_rdata inp1) := 0))"
proof -
  let ?s1 = "cycle cfg inp1 s"
  note cap = cycle_capture [OF assms(1) assms(2) assms(3), of cfg]
  have st1: "state ?s1 = EXECUTE" by (rule cap(1))
  note exe = cycle_execute [OF st1 assms(4), of cfg]
  have flags1: "\<not> isLoad ?s1" "\<not> isStore ?s1" "\<not> isSYSTEM ?s1" "\<not> isJAL ?s1"
    "\<not> isJALR ?s1" "\<not> isLUI ?s1" "\<not> isAUIPC ?s1" "\<not> isBranch ?s1" "\<not> isALU ?s1"
    "\<not> jumpToPCplusImm ?s1"
    using assms(5,6) by (simp_all add: cap)
  have st2: "state (cycle cfg inp2 ?s1) = FETCH_INSTR"
    using flags1
    by (simp add: exe(1) combinational_process_needToWait Let_def exe(5-12)
             del: combinational_process_decoded)
  have pc2: "PC (cycle cfg inp2 ?s1) = PC s + 4"
    using exe(2) flags1 cap(2) by simp
  have wbd: "writeBackData (combinational_process cfg inp2 ?s1) = 0"
    using flags1
    by (simp add: combinational_process_writeBackData Let_def exe(5-12)
             del: combinational_process_decoded)
  have rf2: "registerFile (cycle cfg inp2 ?s1) =
           (if (bits_range 11 7 (mem_rdata inp1) :: 5 word) = 0 then registerFile s
            else (registerFile s)(bits_range 11 7 (mem_rdata inp1) := 0))"
    using flags1 by (simp add: exe(3) wbd cap(3) cap(5))
  show ?thesis using st1 cap(2) cap(3) st2 pc2 rf2 by simp
qed

text \<open>
  The amended claim C4 at the word \<open>0x00000087\<close> with \<open>x1 = 5\<close> and \<open>PC = 0\<close>.
\<close>

theorem illegal_instruction_advances_PC_zeroes_rd_witness:
  "state (wait_instr_core\<lparr> registerFile := (\<lambda>_. 0)(1 := 5) \<rparr>) = WAIT_INSTR \<and>
   (bits_range 6 2 (mem_rdata (bus 0x00000087)) :: 5 word) \<notin>
      {0x00, 0x04, 0x05, 0x08, 0x0C, 0x0D, 0x18, 0x19, 0x1C} \<and>
   \<not> bit (mem_rdata (bus 0x00000087)) 3 \<and>
   PC (cycle cfg_default (bus 0) (cycle cfg_default (bus 0x00000087)
        (wait_instr_core\<lparr> registerFile := (\<lambda>_. 0)(1 := 5) \<rparr>))) = 4 \<and>
   registerFile (cycle cfg_default (bus 0) (cycle cfg_default (bus 0x00000087)
        (wait_instr_core\<lparr> registerFile := (\<lambda>_. 0)(1 := 5) \<rparr>))) 1 = 0"
  using illegal_instruction_advances_PC_zeroes_rd
          [of "wait_instr_core\<lparr> registerFile := (\<lambda>_. 0)(1 := 5) \<rparr>"
              "bus 0x00000087" "bus 0" cfg_default]
  by (simp add: wait_instr_core_def init_core_def bus_def bits_range_def)

section \<open>SYSTEM instructions\<close>

text \<open>
  Claim C8 asks that a SYSTEM instruction naming a CSR other than \<open>0xC00\<close> write zero to
  \<open>rd\<close>. The source never looks at the CSR address: \<open>writeBackData\<close> is \<open>cycles\<close> for
  every SYSTEM instruction. The counterexample runs \<^verbatim>\<open>csrrs x10, 0xC80, x0\<close>
  (\<open>0xC8002573\<close>) with \<open>cycles = 6\<close>: \<open>x10\<close> receives 7, the counter in the \<open>EXECUTE\<close>
  cycle, as it does for \<^verbatim>\<open>csrrs x10, 0xC00, x0\<close> (\<open>0xC0002573\<close>).
\<close>

theorem system_other_csr_writes_cycles:
  "(bits_range 31 20 (0xC8002573 :: 32 word) :: 12 word) = 0xC80 \<and>
   registerFile (run cfg_default [bus 0xC8002573, bus 0]
      (wait_instr_core\<lparr> cycles := 6 \<rparr>)) 10 = 7 \<and>
   registerFile (run cfg_default [bus 0xC0002573, bus 0]
      (wait_instr_core\<lparr> cycles := 6 \<rparr>)) 10 = 7"
  by code_simp

text \<open>
  Claim C8 as amended: every SYSTEM instruction (bits 6 to 2 equal to \<open>11100\<close>), whatever
  CSR address it names, \<open>0xC00\<close> included, writes the 32-bit \<open>cycles\<close> counter, as it
  stands in the \<open>EXECUTE\<close> cycle, to \<open>rd\<close> when \<open>rd\<close> is not 0; it changes no other
  register, advances \<open>PC\<close> by 4 and returns to \<open>FETCH_INSTR\<close>, and \<open>cycles\<close> counts the two
  clock events as it does for any instruction.
\<close>

theorem system_instruction_writes_cycles:
  assumes "state s = WAIT_INSTR" and "reset inp1" and "\<not> mem_rbusy inp1" and "reset inp2"
    and "(bits_range 6 2 (mem_rdata inp1) :: 5 word) = 0x1C"
  shows "cycles (cycle cfg inp1 s) = cycles s + 1 \<and>
         registerFile (cycle cfg inp1 s) = registerFile s \<and>
         registerFile (cycle cfg inp2 (cycle cfg inp1 s)) =
           (if (bits_range 11 7 (mem_rdata inp1) :: 5 word) = 0 then registerFile s
            else (registerFile s)(bits_range 11 7 (mem_rdata inp1) := cycles s + 1)) \<and>
         PC (cycle cfg inp2 (cycle cfg inp1 s)) = PC s + 4 \<and>
         state (cycle cfg inp2 (cycle cfg inp1 s)) = FETCH_INSTR \<and>
         cycles (cycle cfg inp2 (cycle cfg inp1 s)) = cycles s + 2"
proof -
  let ?s1 = "cycle cfg inp1 s"
  note cap = cycle_capture [OF assms(1) assms(2) assms(3), of cfg]
  have b3: "\<not> bit (mem_rdata inp1) 3"
    using bits_range_6_2_bit1 [of "mem_rdata inp1"] assms(5) by simp
  have st1: "state ?s1 = EXECUTE" by (rule cap(1))
  note exe = cycle_execute [OF st1 assms(4), of cfg]
  have flags1: "\<not> isLoad ?s1" "\<not> isStore ?s1" "isSYSTEM ?s1" "\<not> isJAL ?s1"
    "\<not> isJALR ?s1" "\<not> isLUI ?s1" "\<not> isAUIPC ?s1" "\<not> isBranch ?s1" "\<not> isALU ?s1"
    "\<not> jumpToPCplusImm ?s1"
    using assms(5) b3 by (simp_all add: cap)
  have st2: "state (cycle cfg inp2 ?s1) = FETCH_INSTR"
    using flags1
    by (simp add: exe(1) combinational_process_needToWait Let_def exe(5-12)
             del: combinational_process_decoded)
  have pc2: "PC (cycle cfg inp2 ?s1) = PC s + 4"
    using exe(2) flags1 cap(2) by simp
  have wbd: "writeBackData (combinational_process cfg inp2 ?s1) = cycles s + 1"
    using flags1
    by (simp add: combinational_process_writeBackData Let_def exe(5-12) cap(4)
             del: combinational_process_decoded)
  have rf2: "registerFile (cycle cfg inp2 ?s1) =
           (if (bits_range 11 7 (mem_rdata inp1) :: 5 word) = 0 then registerFile s
            else (registerFile s)(bits_range 11 7 (mem_rdata inp1) := cycles s + 1))"
    using flags1 by (simp add: exe(3) wbd cap(3) cap(5))
  have cy2: "cycles (cycle cfg inp2 ?s1) = cycles s + 2"
    by (simp add: exe(4) cap(4))
  show ?thesis using cap(4) cap(3) st2 pc2 rf2 cy2 by simp
qed

text \<open>
  The amended claim C8 at \<^verbatim>\<open>csrrs x10, 0xC80, x0\<close> with \<open>cycles = 6\<close>.
\<close>

theorem system_instruction_writes_cycles_witness:
  "state (wait_instr_core\<lparr> cycles := 6 \<rparr>) = WAIT_INSTR \<and>
   (bits_range 6 2 (mem_rdata (bus 0xC8002573)) :: 5 word) = 0x1C \<and>
   registerFile (cycle cfg_default (bus 0) (cycle cfg_default (bus 0xC8002573)
        (wait_instr_core\<lparr> cycles := 6 \<rparr>))) 10 = 7 \<and>
   PC (cycle cfg_default (bus 0) (cycle cfg_default (bus 0xC8002573)
        (wait_instr_core\<lparr> cycles := 6 \<rparr>))) = 4"
  using system_instruction_writes_cycles
          [of "wait_instr_core\<lparr> cycles := 6 \<rparr>" "bus 0xC8002573" "bus 0" cfg_default]
  by (simp add: wait_instr_core_def init_core_def bus_def bits_range_def)

section \<open>Reset\<close>

text \<open>
  Claim C9 asks that an asserted, active-high reset put the core in the reset
  configuration with all 32 registers zero. The source takes its reset branch when the
  port reads false, and that branch zeroes register 0 only. The counterexample: with the
  port high the clocked update counts a cycle (\<open>cycles\<close> goes from 5 to 6) and leaves
  \<open>EXECUTE\<close> for \<open>FETCH_INSTR\<close>; with the port low, \<open>x1 = 5\<close> keeps its value.
\<close>

theorem reset_high_runs_and_reset_low_keeps_x1:
  "cycles (clock_process cfg_default (bus 0)
      (init_core\<lparr> state := EXECUTE, cycles := 5 \<rparr>)) = 6 \<and>
   state (clock_process cfg_default (bus 0)
      (init_core\<lparr> state := EXECUTE, cycles := 5 \<rparr>)) = FETCH_INSTR \<and>
   registerFile (clock_process cfg_default ((bus 0)\<lparr> reset := False \<rparr>)
      (init_core\<lparr> registerFile := (\<lambda>_. 0)(1 := 5) \<rparr>)) 1 = 5"
  by code_simp

text \<open>
  Claim C9 as amended: when the reset port reads low on a clock event, the clocked update
  sets \<open>state = WAIT_ALU_OR_MEM\<close>, \<open>PC = RESET_ADDR\<close>, \<open>cycles = 0\<close>, \<open>aluShamt = 0\<close> and
  register slot 0 to zero; the register slots 1 to 31 and \<open>aluReg\<close> keep their values.
\<close>

theorem clock_process_reset_low:
  assumes "\<not> reset inp"
  shows "state (clock_process cfg inp s) = WAIT_ALU_OR_MEM \<and>
         PC (clock_process cfg inp s) = RESET_ADDR \<and>
         cycles (clock_process cfg inp s) = 0 \<and>
         aluShamt (clock_process cfg inp s) = 0 \<and>
         registerFile (clock_process cfg inp s) = (registerFile s)(0 := 0) \<and>
         aluReg (clock_process cfg inp s) = aluReg s"
  using assms by (simp add: clock_process_def)

text \<open>
  The amended claim C9 at a core in \<open>EXECUTE\<close> with \<open>PC = 0x40\<close>, \<open>cycles = 5\<close>,
  \<open>aluShamt = 3\<close> and \<open>x1 = 5\<close>.
\<close>

theorem clock_process_reset_low_witness:
  "\<not> reset ((bus 0)\<lparr> reset := False \<rparr>) \<and>
   state (clock_process cfg_default ((bus 0)\<lparr> reset := False \<rparr>)
      (init_core\<lparr> PC := 0x40, state := EXECUTE, cycles := 5, aluShamt := 3,
                  registerFile := (\<lambda>_. 0)(1 := 5) \<rparr>)) = WAIT_ALU_OR_MEM \<and>
   PC (clock_process cfg_default ((bus 0)\<lparr> reset := False \<rparr>)
      (init_core\<lparr> PC := 0x40, state := EXECUTE, cycles := 5, aluShamt := 3,
                  registerFile := (\<lambda>_. 0)(1 := 5) \<rparr>)) = 0 \<and>
   cycles (clock_process cfg_default ((bus 0)\<lparr> reset := False \<rparr>)
      (init_core\<lparr> PC := 0x40, state := EXECUTE, cycles := 5, aluShamt := 3,
                  registerFile := (\<lambda>_. 0)(1 := 5) \<rparr>)) = 0 \<and>
   registerFile (clock_process cfg_default ((bus 0)\<lparr> reset := False \<rparr>)
      (init_core\<lparr> PC := 0x40, state := EXECUTE, cycles := 5, aluShamt := 3,
                  registerFile := (\<lambda>_. 0)(1 := 5) \<rparr>)) 1 = 5"
  using clock_process_reset_low
          [of "(bus 0)\<lparr> reset := False \<rparr>" cfg_default
              "init_core\<lparr> PC := 0x40, state := EXECUTE, cycles := 5, aluShamt := 3,
                          registerFile := (\<lambda>_. 0)(1 := 5) \<rparr>"]
  by (simp add: RESET_ADDR_def init_core_def)

section \<open>The iterative shifter\<close>

text \<open>
  Claim C10: while \<open>aluShamt\<close> is not zero and no new shift is latched, each clocked step
  decreases \<open>aluShamt\<close> by 1, or by 4 in two-level mode when it is at least 4, without
  wrapping below zero; so it reaches zero within \<open>aluShamt\<close> steps, and with both busy
  flags low the state machine then leaves \<open>WAIT_ALU_OR_MEM\<close> and every shift instruction
  terminates. The theorem has three parts. The first is the step of \<open>clock_process\<close>. The
  second is the run from any core in \<open>WAIT_ALU_OR_MEM\<close> over inputs outside reset with
  both busy flags low: after some \<open>k\<close> clock events, with \<open>k\<close> at most the starting
  \<open>aluShamt\<close>, the core has \<open>aluShamt = 0\<close>, it has stayed in \<open>WAIT_ALU_OR_MEM\<close> until
  then, and it is in \<open>FETCH_INSTR\<close> one event later. The third is the run from a shift
  instruction in \<open>EXECUTE\<close>: the core is back in \<open>FETCH_INSTR\<close> within 33 clock events.
\<close>

theorem shifter_terminates:
  "(reset inp \<and> \<not> (aluWr s \<and> funct3IsShift s) \<and> aluShamt s \<noteq> 0 \<longrightarrow>
      unat (aluShamt (clock_process cfg inp s)) =
        unat (aluShamt s) -
          (if NRV_TWOLEVEL_SHIFTER cfg \<and> 4 \<le> unat (aluShamt s) then 4 else 1) \<and>
      (if NRV_TWOLEVEL_SHIFTER cfg \<and> 4 \<le> unat (aluShamt s) then 4 else (1::nat))
        \<le> unat (aluShamt s) \<and>
      unat (aluShamt (clock_process cfg inp s)) < unat (aluShamt s)) \<and>
   (state s = WAIT_ALU_OR_MEM \<and>
    (\<forall>i \<in> set inps. reset i \<and> \<not> mem_rbusy i \<and> \<not> mem_wbusy i) \<and>
    unat (aluShamt s) < length inps \<longrightarrow>
      (\<exists>k \<le> unat (aluShamt s).
         aluShamt (run cfg (take k inps) s) = 0 \<and>
         (\<forall>j \<le> k. state (run cfg (take j inps) s) = WAIT_ALU_OR_MEM) \<and>
         state (run cfg (take (Suc k) inps) s) = FETCH_INSTR)) \<and>
   (state s = EXECUTE \<and> isALU s \<and> (funct3 s = ALU_SLL \<or> funct3 s = ALU_SRL_SRA) \<and>
    (\<forall>i \<in> set inps. reset i \<and> \<not> mem_rbusy i \<and> \<not> mem_wbusy i) \<and>
    32 < length inps \<longrightarrow>
      (\<exists>k \<le> 33. state (run cfg (take k inps) s) = FETCH_INSTR))"
proof (intro conjI impI)
  assume a: "reset inp \<and> \<not> (aluWr s \<and> funct3IsShift s) \<and> aluShamt s \<noteq> 0"
  then have a1: "reset inp" and a2: "\<not> (aluWr s \<and> funct3IsShift s)" and a3: "aluShamt s \<noteq> 0"
    by simp_all
  note st = shamt_step [OF a1 a2 a3, of cfg]
  show "unat (aluShamt (clock_process cfg inp s)) =
        unat (aluShamt s) -
          (if NRV_TWOLEVEL_SHIFTER cfg \<and> 4 \<le> unat (aluShamt s) then 4 else 1)"
    by (rule st(1))
  show "(if NRV_TWOLEVEL_SHIFTER cfg \<and> 4 \<le> unat (aluShamt s) then 4 else (1::nat))
        \<le> unat (aluShamt s)"
    by (rule st(2))
  show "unat (aluShamt (clock_process cfg inp s)) < unat (aluShamt s)"
    by (rule st(3))
next
  assume b: "state s = WAIT_ALU_OR_MEM \<and>
    (\<forall>i \<in> set inps. reset i \<and> \<not> mem_rbusy i \<and> \<not> mem_wbusy i) \<and>
    unat (aluShamt s) < length inps"
  then show "\<exists>k \<le> unat (aluShamt s).
         aluShamt (run cfg (take k inps) s) = 0 \<and>
         (\<forall>j \<le> k. state (run cfg (take j inps) s) = WAIT_ALU_OR_MEM) \<and>
         state (run cfg (take (Suc k) inps) s) = FETCH_INSTR"
    using run_wait [of s inps cfg] by simp
next
  assume c: "state s = EXECUTE \<and> isALU s \<and> (funct3 s = ALU_SLL \<or> funct3 s = ALU_SRL_SRA) \<and>
    (\<forall>i \<in> set inps. reset i \<and> \<not> mem_rbusy i \<and> \<not> mem_wbusy i) \<and>
    32 < length inps"
  then show "\<exists>k \<le> 33. state (run cfg (take k inps) s) = FETCH_INSTR"
    using run_execute_shift [of s inps cfg] by simp
qed

text \<open>
  Claim C10 in the default build. At a core in \<open>WAIT_ALU_OR_MEM\<close> with \<open>aluShamt = 3\<close>
  one clocked step leaves 2, and over four clock events the shifter reaches zero and the
  state machine reaches \<open>FETCH_INSTR\<close>. At a core in \<open>EXECUTE\<close> on a left shift the state
  machine reaches \<open>FETCH_INSTR\<close> within 33 clock events.
\<close>

theorem shifter_terminates_witness:
  "unat (aluShamt (clock_process cfg_default (bus 0) (init_core\<lparr> aluShamt := 3 \<rparr>))) = 2 \<and>
   (\<exists>k \<le> 3.
      aluShamt (run cfg_default (take k [bus 0, bus 0, bus 0, bus 0])
                 (init_core\<lparr> aluShamt := 3 \<rparr>)) = 0 \<and>
      state (run cfg_default (take (Suc k) [bus 0, bus 0, bus 0, bus 0])
                 (init_core\<lparr> aluShamt := 3 \<rparr>)) = FETCH_INSTR) \<and>
   (\<exists>k \<le> 33.
      state (run cfg_default (take k (replicate 33 (bus 0)))
               (init_core\<lparr> state := EXECUTE, isALU := True, funct3 := ALU_SLL \<rparr>)) =
        FETCH_INSTR)"
proof -
  have h1: "reset (bus 0) \<and>
            \<not> (aluWr (init_core\<lparr> aluShamt := 3 \<rparr>) \<and> funct3IsShift (init_core\<lparr> aluShamt := 3 \<rparr>)) \<and>
            aluShamt (init_core\<lparr> aluShamt := 3 \<rparr>) \<noteq> 0"
    by (simp add: bus_def init_core_def)
  have h2: "state (init_core\<lparr> aluShamt := 3 \<rparr>) = WAIT_ALU_OR_MEM \<and>
            (\<forall>i \<in> set [bus 0, bus 0, bus 0, bus 0].
                reset i \<and> \<not> mem_rbusy i \<and> \<not> mem_wbusy i) \<and>
            unat (aluShamt (init_core\<lparr> aluShamt := 3 \<rparr>)) < length [bus 0, bus 0, bus 0, bus 0]"
    by (simp add: bus_def init_core_def)
  have h3: "state (init_core\<lparr> state := EXECUTE, isALU := True, funct3 := ALU_SLL \<rparr>) = EXECUTE \<and>
            isALU (init_core\<lparr> state := EXECUTE, isALU := True, funct3 := ALU_SLL \<rparr>) \<and>
            (funct3 (init_core\<lparr> state := EXECUTE, isALU := True, funct3 := ALU_SLL \<rparr>) = ALU_SLL \<or>
             funct3 (init_core\<lparr> state := EXECUTE, isALU := True, funct3 := ALU_SLL \<rparr>) =
               ALU_SRL_SRA) \<and>
            (\<forall>i \<in> set (replicate 33 (bus 0)).
                reset i \<and> \<not> mem_rbusy i \<and> \<not> mem_wbusy i) \<and>
            32 < length (replicate 33 (bus 0))"
    by (simp add: bus_def)
  have u: "unat (aluShamt (init_core\<lparr> aluShamt := 3 \<rparr>)) = 3"
    by simp
  have c: "\<not> NRV_TWOLEVEL_SHIFTER cfg_default"
    by (simp add: cfg_default_def)
  from shifter_terminates
         [of "bus 0" "init_core\<lparr> aluShamt := 3 \<rparr>" cfg_default "[bus 0, bus 0, bus 0, bus 0]"]
       h1 h2
  have p12: "unat (aluShamt (clock_process cfg_default (bus 0) (init_core\<lparr> aluShamt := 3 \<rparr>))) =
          unat (aluShamt (init_core\<lparr> aluShamt := 3 \<rparr>)) -
            (if NRV_TWOLEVEL_SHIFTER cfg_default \<and>
                4 \<le> unat (aluShamt (init_core\<lparr> aluShamt := 3 \<rparr>)) then 4 else 1)"
    "\<exists>k \<le> unat (aluShamt (init_core\<lparr> aluShamt := 3 \<rparr>)).
           aluShamt (run cfg_default (take k [bus 0, bus 0, bus 0, bus 0])
                      (init_core\<lparr> aluShamt := 3 \<rparr>)) = 0 \<and>
           (\<forall>j \<le> k. state (run cfg_default (take j [bus 0, bus 0, bus 0, bus 0])
                      (init_core\<lparr> aluShamt := 3 \<rparr>)) = WAIT_ALU_OR_MEM) \<and>
           state (run cfg_default (take (Suc k) [bus 0, bus 0, bus 0, bus 0])
                      (init_core\<lparr> aluShamt := 3 \<rparr>)) = FETCH_INSTR"
    by blast+
  from shifter_terminates
         [of "bus 0" "init_core\<lparr> state := EXECUTE, isALU := True, funct3 := ALU_SLL \<rparr>"
             cfg_default "replicate 33 (bus 0)"]
       h3
  have p3: "\<exists>k \<le> 33.
      state (run cfg_default (take k (replicate 33 (bus 0)))
               (init_core\<lparr> state := EXECUTE, isALU := True, funct3 := ALU_SLL \<rparr>)) =
        FETCH_INSTR"
    by blast
  from p12 have "unat (aluShamt (clock_process cfg_default (bus 0) (init_core\<lparr> aluShamt := 3 \<rparr>))) = 2"
    and "\<exists>k \<le> 3.
      aluShamt (run cfg_default (take k [bus 0, bus 0, bus 0, bus 0])
                 (init_core\<lparr> aluShamt := 3 \<rparr>)) = 0 \<and>
      state (run cfg_default (take (Suc k) [bus 0, bus 0, bus 0, bus 0])
                 (init_core\<lparr> aluShamt := 3 \<rparr>)) = FETCH_INSTR"
    unfolding u using c by auto
  with p3 show ?thesis by blast
qed

end
